(* ===== verification/Prelude.thy ===== *)
theory Prelude
  imports Main "HOL-Library.Word" "HOL-Library.Sublist"
begin

text \<open>
  Shared vocabulary of the settlement model: the types that name the program's data
  (addresses, wei amounts, Go's 64-bit integers), the error taxonomy of the core, the
  integer domain bound that the overflow checks use, the collections of facts the
  component theories add to, and generic lemmas on sums over maps and on sum types.
\<close>

section \<open>Types of the model\<close>

text \<open>
  An address is go-ethereum's \<open>common.Address\<close>, a 20-byte array: a 160-bit word.
  Amounts are Go's \<open>*big.Int\<close> values (balances, transfer values, gas prices): HOL's
  unbounded \<open>int\<close>. The program's \<open>int64\<close> and \<open>uint64\<close> are both 64-bit words;
  \<open>sint\<close> reads an \<open>int64\<close> and \<open>unat\<close> a \<open>uint64\<close>, so the Go conversion
  \<open>uint64(x)\<close> of an \<open>int64\<close> is the identity on the bits.
\<close>

type_synonym address = "160 word"
type_synonym wei = int
type_synonym int64 = "64 word"
type_synonym uint64 = "64 word"

section \<open>Errors\<close>

text \<open>The error taxonomy of the core (spec section 7): every rejection is a value.\<close>

datatype error =
    InvalidSignature
  | GasLimitTooLow
  | NonceMismatch
  | Overflow
  | InsufficientFunds
  | BlockNotFound

section \<open>The integer domain\<close>

text \<open>
  Charges and balances live in Ethereum's 256-bit unsigned domain; a charge or a balance
  above \<open>MAX_UINT256\<close> is an overflow, rejected and never wrapped.
\<close>

definition MAX_UINT256 :: int where
  "MAX_UINT256 = 2 ^ 256 - 1"

section \<open>Fact collections\<close>

text \<open>
  \<open>op_defs\<close> collects the unfolding equations of the operations, so that a proof about a
  composed operation can say \<open>simp add: op_defs\<close>; \<open>frame_simps\<close> collects the facts
  that say what an operation leaves unchanged.
\<close>

named_theorems op_defs "definitions of the modelled operations"
named_theorems frame_simps "what an operation leaves unchanged"

section \<open>Generic lemmas\<close>

subsection \<open>Sums over a finite set after a point update\<close>

lemma sum_fun_upd_in:
  fixes f :: "'a \<Rightarrow> 'b::ab_group_add"
  assumes "finite A" and "a \<in> A"
  shows "(\<Sum>x\<in>A. (f(a := v)) x) = (\<Sum>x\<in>A. f x) - f a + v"
proof -
  have "(\<Sum>x\<in>A. (f(a := v)) x) = (f(a := v)) a + (\<Sum>x\<in>A - {a}. (f(a := v)) x)"
    using assms by (simp add: sum.remove)
  also have "(\<Sum>x\<in>A - {a}. (f(a := v)) x) = (\<Sum>x\<in>A - {a}. f x)"
    by (rule sum.cong) auto
  also have "(\<Sum>x\<in>A - {a}. f x) = (\<Sum>x\<in>A. f x) - f a"
    using assms by (simp add: sum_diff1)
  finally show ?thesis by simp
qed

lemma sum_UNIV_fun_upd:
  fixes f :: "'a::finite \<Rightarrow> 'b::ab_group_add"
  shows "(\<Sum>x\<in>UNIV. (f(a := v)) x) = (\<Sum>x\<in>UNIV. f x) - f a + v"
  by (rule sum_fun_upd_in) simp_all

text \<open>A sum over a superset of the support of \<open>f\<close> is the sum over the support.\<close>

lemma sum_superset_support:
  fixes f :: "'a \<Rightarrow> 'b::comm_monoid_add"
  assumes "finite B" and "A \<subseteq> B" and "\<And>x. x \<notin> A \<Longrightarrow> f x = 0"
  shows "(\<Sum>x\<in>B. f x) = (\<Sum>x\<in>A. f x)"
  using assms by (intro sum.mono_neutral_right) auto

subsection \<open>Sum types as results\<close>

lemma bind_sum_Inr_iff [simp]:
  "((case x of Inl e \<Rightarrow> Inl e | Inr v \<Rightarrow> f v) = Inr w) \<longleftrightarrow> (\<exists>v. x = Inr v \<and> f v = Inr w)"
  by (cases x) auto

lemma bind_sum_Inl_iff:
  "((case x of Inl e \<Rightarrow> Inl e | Inr v \<Rightarrow> f v) = Inl e') \<longleftrightarrow>
     (x = Inl e' \<or> (\<exists>v. x = Inr v \<and> f v = Inl e'))"
  by (cases x) auto

end
