(* ===== verification/Ledger.thy ===== *)
theory Ledger
  imports Prelude
begin

text \<open>
  AccountLedger (spec section 4.1): the mapping from address to balance and nonce, its
  queries, the genesis construction and \<open>applyTransfer\<close>, the one operation that
  mutates accounts. An address absent from the map reads as balance 0 and nonce 0.
  The theory proves the functional behaviour of \<open>applyTransfer\<close> on each branch, its
  frame (accounts other than sender and recipient are untouched), the conservation
  law \<open>supply' = supply - fee\<close>, and that it keeps balances in \<open>[0, MAX_UINT256]\<close>.
\<close>

section \<open>State\<close>

record account =
  balance :: wei
  nonce :: nat

type_synonym ledger = "address \<rightharpoonup> account"

definition empty_account :: account where
  "empty_account = \<lparr>balance = 0, nonce = 0\<rparr>"

definition getAccount :: "ledger \<Rightarrow> address \<Rightarrow> account" where
  "getAccount l a = (case l a of None \<Rightarrow> empty_account | Some acc \<Rightarrow> acc)"

definition getBalance :: "ledger \<Rightarrow> address \<Rightarrow> wei" where
  "getBalance l a = balance (getAccount l a)"

definition getNonce :: "ledger \<Rightarrow> address \<Rightarrow> nat" where
  "getNonce l a = nonce (getAccount l a)"

text \<open>The genesis configuration maps an address to its initial balance; nonces start at 0.\<close>

definition genesis_ledger :: "(address \<rightharpoonup> wei) \<Rightarrow> ledger" where
  "genesis_ledger g = (\<lambda>a. map_option (\<lambda>b. \<lparr>balance = b, nonce = 0\<rparr>) (g a))"

section \<open>The transfer\<close>

text \<open>
  \<open>applyTransfer l sender recipient value fee\<close> debits the sender by \<open>value + fee\<close>,
  increments the sender's nonce and credits the recipient by \<open>value\<close>; either all three
  happen (\<open>Inr\<close> of the new ledger) or none does (\<open>Inl\<close> of the reason). The debit is
  applied first, so a transfer to oneself costs exactly the fee. A charge or a credited
  balance above the 256-bit domain is \<open>Overflow\<close>.
\<close>

definition applyTransfer :: "ledger \<Rightarrow> address \<Rightarrow> address \<Rightarrow> wei \<Rightarrow> wei \<Rightarrow> error + ledger" where
  "applyTransfer l s r v fee =
     (let charge = v + fee
      in if MAX_UINT256 < charge then Inl Overflow
         else if getBalance l s < charge then Inl InsufficientFunds
         else
           let l1 = l(s \<mapsto> \<lparr>balance = getBalance l s - charge, nonce = Suc (getNonce l s)\<rparr>)
           in if MAX_UINT256 < getBalance l1 r + v then Inl Overflow
              else Inr (l1(r \<mapsto> (getAccount l1 r)\<lparr>balance := getBalance l1 r + v\<rparr>)))"

declare applyTransfer_def [op_defs]

section \<open>Specification functions\<close>

text \<open>The total supply sums the balances of the accounts present; absent ones hold 0.\<close>

definition total_supply :: "ledger \<Rightarrow> wei" where
  "total_supply l = (\<Sum>a\<in>dom l. getBalance l a)"

text \<open>Invariant 1 of the spec, with the upper end of the 256-bit domain.\<close>

definition ledger_inv :: "ledger \<Rightarrow> bool" where
  "ledger_inv l \<longleftrightarrow> (\<forall>a. 0 \<le> getBalance l a \<and> getBalance l a \<le> MAX_UINT256)"

section \<open>Queries after an update\<close>

lemma getAccount_upd [simp]:
  "getAccount (l(a \<mapsto> acc)) b = (if b = a then acc else getAccount l b)"
  by (simp add: getAccount_def)

lemma getBalance_upd [simp]:
  "getBalance (l(a \<mapsto> acc)) b = (if b = a then balance acc else getBalance l b)"
  by (simp add: getBalance_def)

lemma getNonce_upd [simp]:
  "getNonce (l(a \<mapsto> acc)) b = (if b = a then nonce acc else getNonce l b)"
  by (simp add: getNonce_def)

lemma getBalance_None [simp]: "l a = None \<Longrightarrow> getBalance l a = 0"
  by (simp add: getBalance_def getAccount_def empty_account_def)

lemma getBalance_genesis [simp]:
  "getBalance (genesis_ledger g) a = (case g a of None \<Rightarrow> 0 | Some b \<Rightarrow> b)"
  by (cases "g a") (simp_all add: getBalance_def getAccount_def genesis_ledger_def empty_account_def)

lemma getNonce_genesis [simp]: "getNonce (genesis_ledger g) a = 0"
  by (cases "g a") (simp_all add: getNonce_def getAccount_def genesis_ledger_def empty_account_def)

lemma dom_genesis_ledger [simp]: "dom (genesis_ledger g) = dom g"
  by (auto simp: genesis_ledger_def)

section \<open>Total supply\<close>

text \<open>Addresses are a finite type, so the supply is also the sum over every address.\<close>

lemma total_supply_UNIV: "total_supply l = (\<Sum>a\<in>UNIV. getBalance l a)"
  unfolding total_supply_def
  by (rule sum_superset_support [symmetric]) (auto simp: domIff)

lemma getBalance_upd_fun:
  "getBalance (l(a \<mapsto> acc)) = (getBalance l)(a := balance acc)"
  by (rule ext) simp

lemma total_supply_upd:
  "total_supply (l(a \<mapsto> acc)) = total_supply l - getBalance l a + balance acc"
  by (simp only: total_supply_UNIV getBalance_upd_fun sum_UNIV_fun_upd)

lemma total_supply_genesis:
  "total_supply (genesis_ledger g) = (\<Sum>a\<in>dom g. the (g a))"
  unfolding total_supply_def dom_genesis_ledger
  by (rule sum.cong) auto

section \<open>Behaviour of applyTransfer\<close>

lemma applyTransfer_Inr_iff:
  "applyTransfer l s r v fee = Inr l' \<longleftrightarrow>
     v + fee \<le> MAX_UINT256 \<and> v + fee \<le> getBalance l s \<and>
     (if r = s then getBalance l s - fee else getBalance l r + v) \<le> MAX_UINT256 \<and>
     l' = (let l1 = l(s \<mapsto> \<lparr>balance = getBalance l s - (v + fee), nonce = Suc (getNonce l s)\<rparr>)
           in l1(r \<mapsto> (getAccount l1 r)\<lparr>balance := getBalance l1 r + v\<rparr>))"
  by (auto simp: applyTransfer_def Let_def not_less)

lemma applyTransfer_balance:
  assumes "applyTransfer l s r v fee = Inr l'"
  shows "getBalance l' x =
           getBalance l x - (if x = s then v + fee else 0) + (if x = r then v else 0)"
  using assms by (auto simp: applyTransfer_Inr_iff Let_def)

lemma applyTransfer_nonce:
  assumes "applyTransfer l s r v fee = Inr l'"
  shows "getNonce l' x = getNonce l x + (if x = s then 1 else 0)"
  using assms by (auto simp: applyTransfer_Inr_iff Let_def getNonce_def)

lemma applyTransfer_frame [frame_simps]:
  assumes "applyTransfer l s r v fee = Inr l'" and "x \<noteq> s" and "x \<noteq> r"
  shows "getAccount l' x = getAccount l x"
  using assms by (auto simp: applyTransfer_Inr_iff Let_def)

lemma applyTransfer_total_supply:
  assumes "applyTransfer l s r v fee = Inr l'"
  shows "total_supply l' = total_supply l - fee"
  using assms by (auto simp: applyTransfer_Inr_iff Let_def total_supply_upd)

lemma applyTransfer_Inl_cases:
  assumes "applyTransfer l s r v fee = Inl e"
  shows "(e = Overflow \<and> (MAX_UINT256 < v + fee \<or>
            MAX_UINT256 < (if r = s then getBalance l s - fee else getBalance l r + v)))
       \<or> (e = InsufficientFunds \<and> v + fee \<le> MAX_UINT256 \<and> getBalance l s < v + fee)"
  using assms by (auto simp: applyTransfer_def Let_def split: if_splits)

lemma applyTransfer_ledger_inv:
  assumes "ledger_inv l" and "0 \<le> v" and "0 \<le> fee"
    and "applyTransfer l s r v fee = Inr l'"
  shows "ledger_inv l'"
  unfolding ledger_inv_def
proof
  fix x
  from assms(4) have bal: "getBalance l' x =
      getBalance l x - (if x = s then v + fee else 0) + (if x = r then v else 0)"
    by (rule applyTransfer_balance)
  from assms(4) have ok: "v + fee \<le> getBalance l s"
      "(if r = s then getBalance l s - fee else getBalance l r + v) \<le> MAX_UINT256"
    by (simp_all add: applyTransfer_Inr_iff)
  from assms(1) have "0 \<le> getBalance l x" "getBalance l x \<le> MAX_UINT256"
    by (simp_all add: ledger_inv_def)
  with bal ok assms(2,3) show "0 \<le> getBalance l' x \<and> getBalance l' x \<le> MAX_UINT256"
    by (auto split: if_splits)
qed

end
