(* ===== verification/Validator.thy ===== *)
theory Validator
  imports Ledger
begin

text \<open>
  TransactionValidator (spec section 4.2): a pure decision on a signed transaction
  against the current ledger. The transaction carries the fields that
  \<open>types.NewTransaction(nonce, to, amount, gasLimit, gasPrice, data)\<close> takes in
  \<open>src/main.go\<close> (the empty \<open>data\<close> is omitted). The signing provider is an interface:
  the validator takes any recovery function \<open>'s \<Rightarrow> tx \<Rightarrow> address option\<close> over a
  signature type \<open>'s\<close>, so every lemma here holds for every provider. The lemmas give
  the result of each of the five checks in their order, and that an accepted charge lies
  in the 256-bit domain and is covered by the sender's balance.
\<close>

section \<open>Transactions\<close>

record tx =
  tx_nonce :: nat
  tx_to :: address
  tx_value :: wei
  tx_gas :: uint64
  tx_gasPrice :: wei

datatype 's signed_tx = SignedTx (tx_body: tx) (tx_sig: 's)

type_synonym 's recover_fn = "'s \<Rightarrow> tx \<Rightarrow> address option"

text \<open>The cost a transaction may charge: \<open>value + gasLimit * gasPrice\<close> (geth's \<open>Cost()\<close>).\<close>

definition tx_charge :: "tx \<Rightarrow> wei" where
  "tx_charge t = tx_value t + int (unat (tx_gas t)) * tx_gasPrice t"

definition MINIMUM_TRANSFER_GAS :: nat where
  "MINIMUM_TRANSFER_GAS = 21000"

section \<open>Validation\<close>

text \<open>
  The five checks in the spec's order, short-circuiting on the first failure. On success
  the recovered sender and the charge are returned for the engine to use.
\<close>

definition validate ::
  "'s recover_fn \<Rightarrow> ledger \<Rightarrow> 's signed_tx \<Rightarrow> error + (address \<times> wei)" where
  "validate recover l stx =
     (let t = tx_body stx
      in case recover (tx_sig stx) t of
           None \<Rightarrow> Inl InvalidSignature
         | Some sender \<Rightarrow>
             if unat (tx_gas t) < MINIMUM_TRANSFER_GAS then Inl GasLimitTooLow
             else if tx_nonce t \<noteq> getNonce l sender then Inl NonceMismatch
             else if MAX_UINT256 < tx_charge t then Inl Overflow
             else if getBalance l sender < tx_charge t then Inl InsufficientFunds
             else Inr (sender, tx_charge t))"

declare validate_def [op_defs]

section \<open>Behaviour of validate\<close>

text \<open>Acceptance: every check passes, and the result is the sender and the charge.\<close>

lemma validate_Inr_iff:
  "validate recover l stx = Inr (s, c) \<longleftrightarrow>
     recover (tx_sig stx) (tx_body stx) = Some s \<and>
     MINIMUM_TRANSFER_GAS \<le> unat (tx_gas (tx_body stx)) \<and>
     tx_nonce (tx_body stx) = getNonce l s \<and>
     tx_charge (tx_body stx) \<le> MAX_UINT256 \<and>
     tx_charge (tx_body stx) \<le> getBalance l s \<and>
     c = tx_charge (tx_body stx)"
  by (auto simp: validate_def Let_def not_less split: option.splits)

lemma validate_Inr_charge:
  assumes "validate recover l stx = Inr (s, c)"
  shows "c = tx_charge (tx_body stx) \<and> c \<le> MAX_UINT256 \<and> c \<le> getBalance l s"
  using assms by (simp add: validate_Inr_iff)

text \<open>The rejections, one per check, each under the conditions that the earlier checks pass.\<close>

lemma validate_InvalidSignature:
  "recover (tx_sig stx) (tx_body stx) = None \<Longrightarrow>
     validate recover l stx = Inl InvalidSignature"
  by (simp add: validate_def)

lemma validate_GasLimitTooLow:
  "recover (tx_sig stx) (tx_body stx) = Some s \<Longrightarrow>
     unat (tx_gas (tx_body stx)) < MINIMUM_TRANSFER_GAS \<Longrightarrow>
     validate recover l stx = Inl GasLimitTooLow"
  by (simp add: validate_def)

lemma validate_NonceMismatch:
  "recover (tx_sig stx) (tx_body stx) = Some s \<Longrightarrow>
     MINIMUM_TRANSFER_GAS \<le> unat (tx_gas (tx_body stx)) \<Longrightarrow>
     tx_nonce (tx_body stx) \<noteq> getNonce l s \<Longrightarrow>
     validate recover l stx = Inl NonceMismatch"
  by (simp add: validate_def)

lemma validate_Overflow:
  "recover (tx_sig stx) (tx_body stx) = Some s \<Longrightarrow>
     MINIMUM_TRANSFER_GAS \<le> unat (tx_gas (tx_body stx)) \<Longrightarrow>
     tx_nonce (tx_body stx) = getNonce l s \<Longrightarrow>
     MAX_UINT256 < tx_charge (tx_body stx) \<Longrightarrow>
     validate recover l stx = Inl Overflow"
  by (simp add: validate_def)

lemma validate_InsufficientFunds:
  "recover (tx_sig stx) (tx_body stx) = Some s \<Longrightarrow>
     MINIMUM_TRANSFER_GAS \<le> unat (tx_gas (tx_body stx)) \<Longrightarrow>
     tx_nonce (tx_body stx) = getNonce l s \<Longrightarrow>
     tx_charge (tx_body stx) \<le> MAX_UINT256 \<Longrightarrow>
     getBalance l s < tx_charge (tx_body stx) \<Longrightarrow>
     validate recover l stx = Inl InsufficientFunds"
  by (simp add: validate_def)

lemmas validate_rejections =
  validate_InvalidSignature validate_GasLimitTooLow validate_NonceMismatch
  validate_Overflow validate_InsufficientFunds

text \<open>Whatever the ledger, a transaction whose nonce is not the sender's is never accepted.\<close>

lemma validate_nonce:
  "validate recover l stx = Inr (s, c) \<Longrightarrow> tx_nonce (tx_body stx) = getNonce l s"
  by (simp add: validate_Inr_iff)

text \<open>The validator reads only the sender's balance and nonce.\<close>

lemma validate_depends_on_sender:
  assumes "recover (tx_sig stx) (tx_body stx) = Some s"
    and "getAccount l' s = getAccount l s"
  shows "validate recover l' stx = validate recover l stx"
  using assms by (simp add: validate_def Let_def getBalance_def getNonce_def)

end
