(* ===== verification/Engine.thy ===== *)
theory Engine
  imports Validator
begin

text \<open>
  ExecutionEngine (spec section 4.3): \<open>submit\<close> validates a signed transaction, charges
  the fixed transfer gas at the transaction's gas price, calls \<open>applyTransfer\<close> and
  returns a receipt with the new ledger. A rejection at either phase returns the ledger
  unchanged and a receipt with zero gas and zero cost. \<open>submit_all\<close> runs a sequence
  of submissions in order, threading the ledger. The lemmas show atomic rejection, the
  conservation law (supply plus fees is constant), the nonce discipline (the sender's
  nonce grows by exactly one per applied transaction and never decreases, so a replay is
  rejected), overflow safety, and that the balance invariant is kept by well-formed
  transactions.
\<close>

section \<open>Receipts\<close>

datatype status = Applied | Rejected error

record 's receipt =
  transactionRef :: "'s signed_tx"
  status :: status
  gasUsed :: nat
  totalCost :: wei

definition rejected_receipt :: "'s signed_tx \<Rightarrow> error \<Rightarrow> 's receipt" where
  "rejected_receipt stx e =
     \<lparr>transactionRef = stx, status = Rejected e, gasUsed = 0, totalCost = 0\<rparr>"

section \<open>Submission\<close>

text \<open>The fee of an applied transfer: the fixed gas used, at the transaction's gas price.\<close>

definition tx_fee :: "tx \<Rightarrow> wei" where
  "tx_fee t = int MINIMUM_TRANSFER_GAS * tx_gasPrice t"

definition submit :: "'s recover_fn \<Rightarrow> ledger \<Rightarrow> 's signed_tx \<Rightarrow> 's receipt \<times> ledger" where
  "submit recover l stx =
     (case validate recover l stx of
        Inl e \<Rightarrow> (rejected_receipt stx e, l)
      | Inr (sender, charge) \<Rightarrow>
          let t = tx_body stx
          in case applyTransfer l sender (tx_to t) (tx_value t) (tx_fee t) of
               Inl e \<Rightarrow> (rejected_receipt stx e, l)
             | Inr l' \<Rightarrow>
                 (\<lparr>transactionRef = stx, status = Applied, gasUsed = MINIMUM_TRANSFER_GAS,
                   totalCost = tx_fee t\<rparr>, l'))"

declare submit_def [op_defs]

fun submit_all ::
  "'s recover_fn \<Rightarrow> ledger \<Rightarrow> 's signed_tx list \<Rightarrow> 's receipt list \<times> ledger" where
  "submit_all recover l [] = ([], l)"
| "submit_all recover l (stx # stxs) =
     (let (r, l1) = submit recover l stx;
          (rs, l2) = submit_all recover l1 stxs
      in (r # rs, l2))"

text \<open>A transaction is well formed when its value and gas price are not negative.\<close>

definition tx_wf :: "tx \<Rightarrow> bool" where
  "tx_wf t \<longleftrightarrow> 0 \<le> tx_value t \<and> 0 \<le> tx_gasPrice t"

section \<open>The three outcomes of submit\<close>

abbreviation applied_receipt :: "'s signed_tx \<Rightarrow> 's receipt" where
  "applied_receipt stx \<equiv>
     \<lparr>transactionRef = stx, status = Applied, gasUsed = MINIMUM_TRANSFER_GAS,
      totalCost = tx_fee (tx_body stx)\<rparr>"

abbreviation apply_of :: "ledger \<Rightarrow> address \<Rightarrow> 's signed_tx \<Rightarrow> error + ledger" where
  "apply_of l s stx \<equiv>
     applyTransfer l s (tx_to (tx_body stx)) (tx_value (tx_body stx)) (tx_fee (tx_body stx))"

lemma submit_cases [case_names invalid apply_failed applied]:
  obtains (invalid) e where "validate recover l stx = Inl e"
      and "submit recover l stx = (rejected_receipt stx e, l)"
  | (apply_failed) s c e where "validate recover l stx = Inr (s, c)"
      and "apply_of l s stx = Inl e"
      and "submit recover l stx = (rejected_receipt stx e, l)"
  | (applied) s c l' where "validate recover l stx = Inr (s, c)"
      and "apply_of l s stx = Inr l'"
      and "submit recover l stx = (applied_receipt stx, l')"
proof (cases "validate recover l stx")
  case (Inl e)
  then show ?thesis using that(1) by (simp add: submit_def)
next
  case (Inr sc)
  obtain s c where sc: "sc = (s, c)" by (cases sc)
  show ?thesis
  proof (cases "apply_of l s stx")
    case (Inl e)
    with Inr sc show ?thesis using that(2) by (simp add: submit_def)
  next
    case (Inr l')
    with \<open>validate recover l stx = Inr sc\<close> sc show ?thesis
      using that(3) by (simp add: submit_def)
  qed
qed

lemma rejected_receipt_simps [simp]:
  "status (rejected_receipt stx e) = Rejected e"
  "gasUsed (rejected_receipt stx e) = 0"
  "totalCost (rejected_receipt stx e) = 0"
  "transactionRef (rejected_receipt stx e) = stx"
  by (simp_all add: rejected_receipt_def)

lemma submit_Applied_iff:
  "status (fst (submit recover l stx)) = Applied \<longleftrightarrow>
     (\<exists>s c l'. validate recover l stx = Inr (s, c) \<and> apply_of l s stx = Inr l' \<and>
        submit recover l stx = (applied_receipt stx, l'))"
  by (cases rule: submit_cases [of recover l stx]) auto

lemma submit_not_Applied:
  assumes "status (fst (submit recover l stx)) \<noteq> Applied"
  shows "\<exists>e. submit recover l stx = (rejected_receipt stx e, l)"
  using assms by (cases rule: submit_cases [of recover l stx]) auto

lemma submit_transactionRef [simp]: "transactionRef (fst (submit recover l stx)) = stx"
  by (cases rule: submit_cases [of recover l stx]) auto

text \<open>
  With a non-negative gas price, a validated transaction can fail at the apply phase only
  by overflowing the recipient's balance: the fee for the gas used is at most the
  validated charge's gas part.
\<close>

definition recipient_ok :: "ledger \<Rightarrow> address \<Rightarrow> tx \<Rightarrow> bool" where
  "recipient_ok l s t \<longleftrightarrow>
     (if tx_to t = s then getBalance l s - tx_fee t else getBalance l (tx_to t) + tx_value t)
       \<le> MAX_UINT256"

lemma fee_le_charge:
  assumes "MINIMUM_TRANSFER_GAS \<le> unat (tx_gas t)" and "0 \<le> tx_gasPrice t"
  shows "tx_value t + tx_fee t \<le> tx_charge t"
proof -
  from assms(1) have "int MINIMUM_TRANSFER_GAS \<le> int (unat (tx_gas t))"
    by (simp only: of_nat_le_iff)
  from this assms(2) have "int MINIMUM_TRANSFER_GAS * tx_gasPrice t \<le> int (unat (tx_gas t)) * tx_gasPrice t"
    by (rule mult_right_mono)
  then show ?thesis by (simp add: tx_fee_def tx_charge_def)
qed

lemma submit_Applied_iff_valid:
  assumes "0 \<le> tx_gasPrice (tx_body stx)"
  shows "status (fst (submit recover l stx)) = Applied \<longleftrightarrow>
     (\<exists>s c. validate recover l stx = Inr (s, c) \<and> recipient_ok l s (tx_body stx))"
proof (cases rule: submit_cases [of recover l stx])
  case (invalid e)
  then show ?thesis by simp
next
  case (apply_failed s c e)
  have "\<not> recipient_ok l s (tx_body stx)"
  proof
    assume ok: "recipient_ok l s (tx_body stx)"
    from apply_failed(1) have v: "MINIMUM_TRANSFER_GAS \<le> unat (tx_gas (tx_body stx))"
        "tx_charge (tx_body stx) \<le> MAX_UINT256" "tx_charge (tx_body stx) \<le> getBalance l s"
      by (simp_all add: validate_Inr_iff)
    from fee_le_charge [OF v(1) assms] v(2,3) ok have "\<exists>l'. apply_of l s stx = Inr l'"
      by (simp add: applyTransfer_Inr_iff recipient_ok_def split: if_splits)
    with apply_failed(2) show False by simp
  qed
  with apply_failed show ?thesis by simp
next
  case (applied s c l')
  from applied(2) have "recipient_ok l s (tx_body stx)"
    by (simp add: applyTransfer_Inr_iff recipient_ok_def split: if_splits)
  with applied show ?thesis by auto
qed

section \<open>Conservation\<close>

lemma submit_total_supply:
  "total_supply (snd (submit recover l stx)) + totalCost (fst (submit recover l stx)) =
     total_supply l"
  by (cases rule: submit_cases [of recover l stx]) (auto dest: applyTransfer_total_supply)

section \<open>Nonces\<close>

lemma submit_nonce:
  "getNonce (snd (submit recover l stx)) x =
     getNonce l x +
       (if status (fst (submit recover l stx)) = Applied \<and>
           recover (tx_sig stx) (tx_body stx) = Some x then 1 else 0)"
proof (cases rule: submit_cases [of recover l stx])
  case (applied s c l')
  then show ?thesis
    by (auto simp: validate_Inr_iff applyTransfer_nonce [OF applied(2)])
qed simp_all

lemma submit_nonce_mono: "getNonce l x \<le> getNonce (snd (submit recover l stx)) x"
  by (simp add: submit_nonce)

lemma submit_all_nonce_mono: "getNonce l x \<le> getNonce (snd (submit_all recover l stxs)) x"
proof (induction stxs arbitrary: l)
  case Nil
  then show ?case by simp
next
  case (Cons stx stxs)
  have "getNonce l x \<le> getNonce (snd (submit recover l stx)) x"
    by (rule submit_nonce_mono)
  also have "\<dots> \<le> getNonce (snd (submit_all recover (snd (submit recover l stx)) stxs)) x"
    by (rule Cons.IH)
  finally show ?case by (simp add: split_def Let_def)
qed

text \<open>
  The replay lemma: once a transaction of sender \<open>s\<close> is applied, its nonce lies
  below \<open>s\<close>'s nonce for ever, so any transaction of \<open>s\<close> with that nonce that passes
  the signature and gas checks is rejected with \<open>NonceMismatch\<close>.
\<close>

lemma nonce_below_rejected:
  assumes "recover (tx_sig stx) (tx_body stx) = Some s"
    and "MINIMUM_TRANSFER_GAS \<le> unat (tx_gas (tx_body stx))"
    and "tx_nonce (tx_body stx) < getNonce l s"
  shows "submit recover l stx = (rejected_receipt stx NonceMismatch, l)"
  using assms by (simp add: submit_def validate_NonceMismatch)

section \<open>Balances\<close>

lemma submit_applied_balance:
  assumes "status (fst (submit recover l stx)) = Applied"
    and "recover (tx_sig stx) (tx_body stx) = Some s"
  shows "getBalance (snd (submit recover l stx)) x =
           getBalance l x
           - (if x = s then tx_value (tx_body stx) + tx_fee (tx_body stx) else 0)
           + (if x = tx_to (tx_body stx) then tx_value (tx_body stx) else 0)"
proof -
  from assms(1) obtain s' c l' where v: "validate recover l stx = Inr (s', c)"
    and a: "apply_of l s' stx = Inr l'" and eq: "submit recover l stx = (applied_receipt stx, l')"
    by (auto simp: submit_Applied_iff)
  from v assms(2) have "s' = s" by (simp add: validate_Inr_iff)
  with a eq show ?thesis by (simp add: applyTransfer_balance)
qed

lemma submit_ledger_inv:
  assumes "ledger_inv l" and "tx_wf (tx_body stx)"
  shows "ledger_inv (snd (submit recover l stx))"
proof (cases rule: submit_cases [of recover l stx])
  case (applied s c l')
  from assms(2) have "0 \<le> tx_fee (tx_body stx)" "0 \<le> tx_value (tx_body stx)"
    by (simp_all add: tx_wf_def tx_fee_def)
  with assms(1) applied show ?thesis
    by (simp add: applyTransfer_ledger_inv)
qed (use assms in simp_all)

lemma submit_all_ledger_inv:
  assumes "ledger_inv l" and "\<forall>stx\<in>set stxs. tx_wf (tx_body stx)"
  shows "ledger_inv (snd (submit_all recover l stxs))"
  using assms
proof (induction stxs arbitrary: l)
  case Nil
  then show ?case by simp
next
  case (Cons stx stxs)
  then have "ledger_inv (snd (submit recover l stx))"
    by (simp add: submit_ledger_inv)
  with Cons.IH Cons.prems(2) show ?case
    by (simp add: split_def Let_def)
qed

end
