(* ===== verification/Committer.thy ===== *)
theory Committer
  imports Engine
begin

text \<open>
  BlockCommitter (spec section 4.4): the chain is an append-only list of blocks; a block
  holds its index, the batch of applied transactions with their receipts, and a snapshot
  of the ledger after them. A snapshot is a HOL value, so no later mutation of the
  working ledger can reach it. The lemmas show that commit appends exactly one block
  with the next index, that the chain's indices are its positions, that a historical
  query at an old height is not changed by later commits, and that a query beyond the
  chain is \<open>BlockNotFound\<close>.
\<close>

section \<open>Blocks and the chain\<close>

type_synonym 's batch = "('s signed_tx \<times> 's receipt) list"

record 's block =
  index :: nat
  transactions :: "'s batch"
  ledgerDigest :: ledger

type_synonym 's chain = "'s block list"

definition commit :: "'s chain \<Rightarrow> ledger \<Rightarrow> 's batch \<Rightarrow> 's chain \<times> 's block" where
  "commit c l batch =
     (let b = \<lparr>index = length c, transactions = batch, ledgerDigest = l\<rparr> in (c @ [b], b))"

declare commit_def [op_defs]

definition balanceAt :: "'s chain \<Rightarrow> address \<Rightarrow> nat \<Rightarrow> error + wei" where
  "balanceAt c a i =
     (if i < length c then Inr (getBalance (ledgerDigest (c ! i)) a) else Inl BlockNotFound)"

definition currentIndex :: "'s chain \<Rightarrow> nat option" where
  "currentIndex c = (if c = [] then None else Some (length c - 1))"

text \<open>The chain invariant: each block's index is its position.\<close>

definition chain_wf :: "'s chain \<Rightarrow> bool" where
  "chain_wf c \<longleftrightarrow> (\<forall>i<length c. index (c ! i) = i)"

text \<open>The fees a batch charged, and the fees of the blocks up to height \<open>i\<close>.\<close>

definition batch_fees :: "'s batch \<Rightarrow> wei" where
  "batch_fees bt = sum_list (map (totalCost \<circ> snd) bt)"

definition fees_upto :: "'s chain \<Rightarrow> nat \<Rightarrow> wei" where
  "fees_upto c i = sum_list (map (batch_fees \<circ> transactions) (take (Suc i) c))"

section \<open>Commit\<close>

lemma commit_chain:
  "fst (commit c l bt) = c @ [\<lparr>index = length c, transactions = bt, ledgerDigest = l\<rparr>]"
  by (simp add: commit_def Let_def)

lemma commit_length [simp]: "length (fst (commit c l bt)) = Suc (length c)"
  by (simp add: commit_chain)

lemma commit_prefix: "prefix c (fst (commit c l bt))"
  by (simp add: commit_chain)

lemma commit_chain_wf: "chain_wf c \<Longrightarrow> chain_wf (fst (commit c l bt))"
  by (auto simp: chain_wf_def commit_chain nth_append less_Suc_eq)

lemma commit_currentIndex: "currentIndex (fst (commit c l bt)) = Some (length c)"
  by (simp add: currentIndex_def commit_chain)

section \<open>Historical queries\<close>

lemma balanceAt_commit_old:
  "i < length c \<Longrightarrow> balanceAt (fst (commit c l bt)) a i = balanceAt c a i"
  by (simp add: balanceAt_def commit_chain nth_append)

lemma balanceAt_commit_new:
  "balanceAt (fst (commit c l bt)) a (length c) = Inr (getBalance l a)"
  by (simp add: balanceAt_def commit_chain)

lemma balanceAt_beyond: "length c \<le> i \<Longrightarrow> balanceAt c a i = Inl BlockNotFound"
  by (simp add: balanceAt_def)

lemma balanceAt_Inr_iff:
  "balanceAt c a i = Inr v \<longleftrightarrow> i < length c \<and> v = getBalance (ledgerDigest (c ! i)) a"
  by (auto simp: balanceAt_def)

text \<open>A prefix of the chain answers every query it can answer as the whole chain does.\<close>

lemma balanceAt_prefix:
  assumes "prefix c c'" and "i < length c"
  shows "balanceAt c' a i = balanceAt c a i"
proof -
  from assms(1) obtain d where "c' = c @ d" by (auto simp: prefix_def)
  with assms(2) show ?thesis by (simp add: balanceAt_def nth_append)
qed

section \<open>Fees per height\<close>

lemma fees_upto_commit_old:
  "i < length c \<Longrightarrow> fees_upto (fst (commit c l bt)) i = fees_upto c i"
  by (simp add: fees_upto_def commit_chain)

lemma fees_upto_commit_new:
  "fees_upto (fst (commit c l bt)) (length c) = fees_upto c (length c - 1) + batch_fees bt"
  by (cases c) (simp_all add: fees_upto_def commit_chain)

lemma batch_fees_snoc [simp]: "batch_fees (bt @ [x]) = batch_fees bt + totalCost (snd x)"
  by (simp add: batch_fees_def)

lemma batch_fees_Nil [simp]: "batch_fees [] = 0"
  by (simp add: batch_fees_def)

end
