(* ===== verification/Backend.thy ===== *)
theory Backend
  imports Committer
begin

text \<open>
  The simulated backend that \<open>src/main.go\<close> drives (\<open>backends.NewSimulatedBackend\<close>,
  \<open>SendTransaction\<close>, \<open>Commit\<close>, \<open>PendingNonceAt\<close>, \<open>BalanceAt\<close>), modelled as the
  core's external interface of spec section 6 built from the components: a working
  ledger, the committed chain, and the batch of transactions applied since the last
  commit. Construction commits the genesis ledger as block 0, so the block after the
  first commit is block 1, as the program's \<open>BalanceAt(..., big.NewInt(1))\<close> expects.
  The reachable backends are an inductive set closed under sends and commits; by rule
  induction every reachable backend keeps the chain indices equal to positions and the
  conservation law at every block height: the supply in block \<open>i\<close>'s snapshot plus the
  fees charged in blocks \<open>0..i\<close> is the genesis supply.
\<close>

section \<open>State and operations\<close>

record 's backend =
  ledger :: ledger
  chain :: "'s chain"
  pending :: "'s batch"

definition newSimulatedBackend :: "(address \<rightharpoonup> wei) \<Rightarrow> 's backend" where
  "newSimulatedBackend g =
     (let l = genesis_ledger g in \<lparr>ledger = l, chain = fst (commit [] l []), pending = []\<rparr>)"

definition sendTransaction ::
  "'s recover_fn \<Rightarrow> 's backend \<Rightarrow> 's signed_tx \<Rightarrow> error + 's backend" where
  "sendTransaction recover b stx =
     (let (r, l') = submit recover (ledger b) stx
      in case status r of
           Applied \<Rightarrow> Inr (b\<lparr>ledger := l', pending := pending b @ [(stx, r)]\<rparr>)
         | Rejected e \<Rightarrow> Inl e)"

definition backend_commit :: "'s backend \<Rightarrow> 's backend" where
  "backend_commit b =
     b\<lparr>chain := fst (commit (chain b) (ledger b) (pending b)), pending := []\<rparr>"

definition pendingNonceAt :: "'s backend \<Rightarrow> address \<Rightarrow> nat" where
  "pendingNonceAt b a = getNonce (ledger b) a"

definition backend_balanceAt :: "'s backend \<Rightarrow> address \<Rightarrow> nat \<Rightarrow> error + wei" where
  "backend_balanceAt b a i = balanceAt (chain b) a i"

declare newSimulatedBackend_def [op_defs] sendTransaction_def [op_defs]
  backend_commit_def [op_defs]

section \<open>Reachable backends\<close>

inductive reachable :: "'s recover_fn \<Rightarrow> (address \<rightharpoonup> wei) \<Rightarrow> 's backend \<Rightarrow> bool"
  for recover :: "'s recover_fn" and g :: "address \<rightharpoonup> wei" where
  genesis: "reachable recover g (newSimulatedBackend g)"
| send: "reachable recover g b \<Longrightarrow> sendTransaction recover b stx = Inr b' \<Longrightarrow>
           reachable recover g b'"
| commit: "reachable recover g b \<Longrightarrow> reachable recover g (backend_commit b)"

definition genesis_supply :: "(address \<rightharpoonup> wei) \<Rightarrow> wei" where
  "genesis_supply g = total_supply (genesis_ledger g)"

definition backend_inv :: "(address \<rightharpoonup> wei) \<Rightarrow> 's backend \<Rightarrow> bool" where
  "backend_inv g b \<longleftrightarrow>
     chain_wf (chain b) \<and> chain b \<noteq> [] \<and>
     (\<forall>i<length (chain b).
        total_supply (ledgerDigest (chain b ! i)) + fees_upto (chain b) i = genesis_supply g) \<and>
     total_supply (ledger b) + fees_upto (chain b) (length (chain b) - 1) + batch_fees (pending b)
       = genesis_supply g"

section \<open>The operations\<close>

lemma newSimulatedBackend_simps [simp]:
  "ledger (newSimulatedBackend g) = genesis_ledger g"
  "chain (newSimulatedBackend g) = [\<lparr>index = 0, transactions = [], ledgerDigest = genesis_ledger g\<rparr>]"
  "pending (newSimulatedBackend g) = []"
  by (simp_all add: newSimulatedBackend_def commit_def Let_def)

lemma sendTransaction_Inr_iff:
  "sendTransaction recover b stx = Inr b' \<longleftrightarrow>
     status (fst (submit recover (ledger b) stx)) = Applied \<and>
     b' = b\<lparr>ledger := snd (submit recover (ledger b) stx),
            pending := pending b @ [(stx, fst (submit recover (ledger b) stx))]\<rparr>"
  by (auto simp: sendTransaction_def split_def Let_def split: status.splits)

lemma sendTransaction_Inl_iff:
  "sendTransaction recover b stx = Inl e \<longleftrightarrow> status (fst (submit recover (ledger b) stx)) = Rejected e"
  by (auto simp: sendTransaction_def split_def Let_def split: status.splits)

lemma sendTransaction_Inr_ex:
  "(\<exists>b'. sendTransaction recover b stx = Inr b') \<longleftrightarrow>
     status (fst (submit recover (ledger b) stx)) = Applied"
  by (simp add: sendTransaction_Inr_iff)

lemma backend_commit_simps [simp]:
  "ledger (backend_commit b) = ledger b"
  "chain (backend_commit b) = fst (commit (chain b) (ledger b) (pending b))"
  "pending (backend_commit b) = []"
  by (simp_all add: backend_commit_def)

section \<open>The backend invariant\<close>

lemma backend_inv_genesis: "backend_inv g (newSimulatedBackend g)"
  by (simp add: backend_inv_def chain_wf_def fees_upto_def genesis_supply_def)

lemma backend_inv_send:
  assumes "backend_inv g b" and "sendTransaction recover b stx = Inr b'"
  shows "backend_inv g b'"
proof -
  have "total_supply (snd (submit recover (ledger b) stx)) +
          totalCost (fst (submit recover (ledger b) stx)) = total_supply (ledger b)"
    by (rule submit_total_supply)
  with assms show ?thesis
    by (auto simp: backend_inv_def sendTransaction_Inr_iff)
qed

lemma backend_inv_commit:
  assumes "backend_inv g b"
  shows "backend_inv g (backend_commit b)"
  unfolding backend_inv_def
proof (intro conjI allI impI)
  from assms show "chain_wf (chain (backend_commit b))"
    by (simp add: backend_inv_def commit_chain_wf)
  show "chain (backend_commit b) \<noteq> []"
    by (simp add: commit_chain)
  fix i
  assume i: "i < length (chain (backend_commit b))"
  show "total_supply (ledgerDigest (chain (backend_commit b) ! i)) +
          fees_upto (chain (backend_commit b)) i = genesis_supply g"
  proof (cases "i < length (chain b)")
    case True
    with assms show ?thesis
      by (simp add: backend_inv_def commit_chain nth_append
          fees_upto_commit_old [unfolded commit_chain, OF True])
  next
    case False
    with i have "i = length (chain b)" by simp
    with assms show ?thesis
      by (simp add: backend_inv_def commit_chain fees_upto_commit_new [unfolded commit_chain])
  qed
next
  from assms show "total_supply (ledger (backend_commit b)) +
      fees_upto (chain (backend_commit b)) (length (chain (backend_commit b)) - 1) +
      batch_fees (pending (backend_commit b)) = genesis_supply g"
    by (simp add: backend_inv_def fees_upto_commit_new)
qed

lemma reachable_backend_inv: "reachable recover g b \<Longrightarrow> backend_inv g b"
proof (induction rule: reachable.induct)
  case genesis
  show ?case by (rule backend_inv_genesis)
next
  case (send b stx b')
  then show ?case by (blast intro: backend_inv_send)
next
  case (commit b)
  from commit.IH show ?case by (rule backend_inv_commit)
qed

section \<open>Nonces and history along a run\<close>

lemma sendTransaction_nonce_mono:
  "sendTransaction recover b stx = Inr b' \<Longrightarrow> pendingNonceAt b a \<le> pendingNonceAt b' a"
  by (auto simp: sendTransaction_Inr_iff pendingNonceAt_def submit_nonce_mono)

lemma sendTransaction_chain [simp]:
  "sendTransaction recover b stx = Inr b' \<Longrightarrow> chain b' = chain b"
  by (simp add: sendTransaction_Inr_iff)

end
