(* ===== verification/Program.thy ===== *)
theory Program
  imports Backend
begin

text \<open>
  The program of \<open>src/main.go\<close>: two clients A and B start with 10,000,000 wei each in
  a simulated network; A sends an amount to B, the block is committed and the balances
  are read at block 1; then a second, fresh network is built from those balances and B
  sends an amount to A. The model follows \<open>main\<close> phase by phase: \<open>main_setup\<close> (lines
  33-78), \<open>transaction1\<close> (80-146), \<open>transaction2\<close> (148-217), composed by
  \<open>main_run\<close> with the deferred \<open>recover\<close> of lines 24-31. Output is the list of the
  strings the program writes. Inputs are what \<open>fmt.Scanln\<close> stored: \<open>Some\<close> a parsed
  \<open>int64\<close>, or \<open>None\<close> when scanning failed and the variable kept its zero value.
  Addresses are printed by an address formatter \<open>hex\<close> (go-ethereum's checksummed
  \<open>Address.String()\<close>), a parameter of the model.
\<close>

section \<open>The signing provider\<close>

text \<open>
  An EIP-155 signer instance of the signing interface: a signature records the chain ID,
  the signer and the signed transaction, and recovery succeeds only for the same chain
  and the same transaction. A private key is identified with the address derived from it.
\<close>

datatype signature = Sig (sig_chain: nat) (sig_signer: address) (sig_tx: tx)

definition signTx :: "nat \<Rightarrow> address \<Rightarrow> tx \<Rightarrow> signature signed_tx" where
  "signTx cid key t = SignedTx t (Sig cid key t)"

definition eip155_recover :: "nat \<Rightarrow> signature recover_fn" where
  "eip155_recover cid s t =
     (if sig_chain s = cid \<and> sig_tx s = t then Some (sig_signer s) else None)"

section \<open>Constants of the program\<close>

text \<open>
  Line 55, \<open>balance.SetString("10000000", 10)\<close>: a base-10 \<open>big.Int\<close> literal with an
  optional sign. On a malformed literal \<open>SetString\<close> fails; the program ignores the
  result, and the model then keeps \<open>new(big.Int)\<close>'s zero.
\<close>

fun parse_digits :: "string \<Rightarrow> int \<Rightarrow> int option" where
  "parse_digits [] acc = Some acc"
| "parse_digits (c # cs) acc =
     (if 48 \<le> (of_char c :: nat) \<and> (of_char c :: nat) \<le> 57
      then parse_digits cs (10 * acc + (int (of_char c) - 48)) else None)"

definition setString :: "string \<Rightarrow> int option" where
  "setString s =
     (case s of
        [] \<Rightarrow> None
      | c # ds \<Rightarrow>
          if c = CHR ''-'' then (if ds = [] then None else map_option uminus (parse_digits ds 0))
          else if c = CHR ''+'' then (if ds = [] then None else parse_digits ds 0)
          else parse_digits s 0)"

definition initial_balance :: wei where
  "initial_balance = (case setString ''10000000'' of Some v \<Rightarrow> v | None \<Rightarrow> 0)"

definition chainID :: nat where
  "chainID = 1337"

definition gasPrice :: wei where
  "gasPrice = 1"

text \<open>The backend checks signatures against the chain the program signs for.\<close>

abbreviation recover :: "signature recover_fn" where
  "recover \<equiv> eip155_recover chainID"

section \<open>Formatting\<close>

definition NL :: string where
  "NL = [CHR 0x0A]"

fun nat_dec :: "nat \<Rightarrow> string" where
  "nat_dec n = (if n < 10 then [char_of (48 + n)] else nat_dec (n div 10) @ [char_of (48 + n mod 10)])"

declare nat_dec.simps [simp del]

definition int_dec :: "int \<Rightarrow> string" where
  "int_dec i = (if i < 0 then CHR ''-'' # nat_dec (nat (- i)) else nat_dec (nat i))"

definition pad_left :: "nat \<Rightarrow> string \<Rightarrow> string" where
  "pad_left w s = replicate (w - length s) (CHR '' '') @ s"

text \<open>
  The text of an error value. The backend is modelled from the specification's core,
  whose errors are the reasons of section 7, so the error that line 198 prints is
  written as its reason's name. go-ethereum's own wording is not modelled.
\<close>

definition error_text :: "error \<Rightarrow> string" where
  "error_text e = (case e of
      InvalidSignature \<Rightarrow> ''InvalidSignature''
    | GasLimitTooLow \<Rightarrow> ''GasLimitTooLow''
    | NonceMismatch \<Rightarrow> ''NonceMismatch''
    | Overflow \<Rightarrow> ''Overflow''
    | InsufficientFunds \<Rightarrow> ''InsufficientFunds''
    | BlockNotFound \<Rightarrow> ''BlockNotFound'')"

section \<open>Helpers of main.go\<close>

text \<open>\<open>getGasLimit\<close> and \<open>getAmount\<close> print a prompt and return what \<open>Scanln\<close> stored.\<close>

definition getGasLimit :: "int64 option \<Rightarrow> string \<times> int64" where
  "getGasLimit inp = (''Gas limit [Minimo 21000]: '', case inp of None \<Rightarrow> 0 | Some a \<Rightarrow> a)"

definition getAmount :: "int64 option \<Rightarrow> string \<times> int64" where
  "getAmount inp = (''Monto transaccion: '', case inp of None \<Rightarrow> 0 | Some a \<Rightarrow> a)"

definition printTrxInfo :: "(address \<Rightarrow> string) \<Rightarrow> tx \<Rightarrow> string list" where
  "printTrxInfo hex t =
     [''Amount: '' @ int_dec (tx_value t) @ NL,
      ''GasPrice: '' @ int_dec (tx_gasPrice t) @ NL,
      ''Gas: '' @ nat_dec (unat (tx_gas t)) @ NL,
      ''Cost: '' @ int_dec (tx_value t) @ '' + ('' @ nat_dec (unat (tx_gas t)) @ '' * '' @
        int_dec (tx_gasPrice t) @ '') = '' @ int_dec (tx_charge t) @ NL,
      ''To (public key): '' @ hex (tx_to t) @ NL,
      NL]"

text \<open>\<open>extractBalance\<close> reads the balance at block 1 and panics on an error.\<close>

datatype stop = Returned | Panicked error | IndexOutOfRange

definition extractBalance :: "signature backend \<Rightarrow> address \<Rightarrow> stop + wei" where
  "extractBalance b a =
     (case backend_balanceAt b a 1 of Inl e \<Rightarrow> Inl (Panicked e) | Inr v \<Rightarrow> Inr v)"

definition printBalance :: "string \<Rightarrow> wei \<Rightarrow> string" where
  "printBalance cliente bal =
     ''BALANCE CLIENTE: '' @ cliente @ '' : '' @ pad_left 10 (int_dec bal) @ NL"

section \<open>The state of main\<close>

record main_state =
  pkA :: address
  pkB :: address
  backend :: "signature backend"
  balance1A :: wei
  balance1B :: wei
  out :: "string list"

datatype main_outcome = Finished main_state | Stopped stop "string list"

section \<open>Setup (lines 33-78)\<close>

definition genesisChain :: "address \<Rightarrow> address \<Rightarrow> (address \<rightharpoonup> wei)" where
  "genesisChain A B = [A \<mapsto> initial_balance, B \<mapsto> initial_balance]"

definition main_setup :: "(address \<Rightarrow> string) \<Rightarrow> address \<Rightarrow> address \<Rightarrow> main_state" where
  "main_setup hex A B =
     \<lparr>pkA = A, pkB = B, backend = newSimulatedBackend (genesisChain A B),
      balance1A = 0, balance1B = 0,
      out =
        [''CLIENTES INICIALES'' @ NL,
         printBalance ''A'' initial_balance,
         ''Clave publica A: '' @ hex A @ NL,
         NL,
         printBalance ''B'' initial_balance,
         ''Clave publica B: '' @ hex B @ NL,
         ''- - - - - - - - - - -'' @ NL]\<rparr>"

section \<open>Transaction 1: A sends to B (lines 80-146)\<close>

text \<open>
  Lines 89-109 read A's nonce, read the amount and the gas limit and convert them
  (\<open>big.NewInt(a)\<close> is \<open>sint a\<close>; \<open>uint64(limit)\<close> keeps the bits) and build the
  transaction; line 114 signs it for \<open>chainID\<close>.
\<close>

definition trx1AtoB :: "main_state \<Rightarrow> int64 option \<Rightarrow> int64 option \<Rightarrow> tx" where
  "trx1AtoB st inA inL =
     \<lparr>tx_nonce = pendingNonceAt (backend st) (pkA st), tx_to = pkB st,
      tx_value = sint (snd (getAmount inA)), tx_gas = snd (getGasLimit inL),
      tx_gasPrice = gasPrice\<rparr>"

definition signedATx :: "main_state \<Rightarrow> int64 option \<Rightarrow> int64 option \<Rightarrow> signature signed_tx" where
  "signedATx st inA inL = signTx chainID (pkA st) (trx1AtoB st inA inL)"

text \<open>Lines 132-146: the first transaction of the current block and the balances.\<close>

definition report1 :: "(address \<Rightarrow> string) \<Rightarrow> tx \<Rightarrow> wei \<Rightarrow> wei \<Rightarrow> string list" where
  "report1 hex t balA balB =
     [''A - - - '' @ int_dec (tx_value t) @ '' - - - > B'' @ NL @ NL] @
     printTrxInfo hex t @
     [printBalance ''A'' balA, printBalance ''B'' balB, ''- - - - - - - - - - -'' @ NL, NL]"

text \<open>
  Any send error prints the gas message and returns. After the commit the balances at
  block 1 are read and the first transaction of the current block is printed. The second
  pair of \<open>extractBalance\<close> calls (lines 136-137) reads the same block of the same
  backend as the first pair (lines 129-130), so its values are \<open>bal1A\<close> and
  \<open>bal1B\<close>; \<open>Close\<close> (line 139) never fails on this backend.
\<close>

definition transaction1 ::
  "(address \<Rightarrow> string) \<Rightarrow> int64 option \<Rightarrow> int64 option \<Rightarrow> main_state \<Rightarrow>
     (stop \<times> string list) + main_state" where
  "transaction1 hex inA inL st =
     (let os = out st @ [fst (getAmount inA), fst (getGasLimit inL)]
      in case sendTransaction recover (backend st) (signedATx st inA inL) of
           Inl err \<Rightarrow> Inl (Returned, os @ [''ERROR Gas insuficiente'' @ NL])
         | Inr b1 \<Rightarrow>
             let b2 = backend_commit b1
             in case extractBalance b2 (pkA st) of
                  Inl p \<Rightarrow> Inl (p, os)
                | Inr bal1A \<Rightarrow>
                    (case extractBalance b2 (pkB st) of
                       Inl p \<Rightarrow> Inl (p, os)
                     | Inr bal1B \<Rightarrow>
                         (case transactions (last (chain b2)) of
                            [] \<Rightarrow> Inl (IndexOutOfRange, os)
                          | trx1 # _ \<Rightarrow>
                              Inr (st\<lparr>backend := b2, balance1A := bal1A, balance1B := bal1B,
                                     out := os @ report1 hex (tx_body (fst trx1)) bal1A bal1B\<rparr>))))"

section \<open>Transaction 2: B sends to A on a new backend (lines 148-217)\<close>

text \<open>
  A second genesis is built from the balances read at block 1; B's nonce is read from
  the first (closed) backend before the second backend replaces it.
\<close>

definition genesisChain2 :: "address \<Rightarrow> address \<Rightarrow> wei \<Rightarrow> wei \<Rightarrow> (address \<rightharpoonup> wei)" where
  "genesisChain2 A B balA balB = [A \<mapsto> balA, B \<mapsto> balB]"

definition PRESS_ENTER :: string where
  "PRESS_ENTER = NL @ ''Press '' @ [CHR 0x27] @ ''Enter'' @ [CHR 0x27] @ '' to finish...''"

text \<open>Lines 166-187: B's nonce (from the first backend), amount, gas limit, transaction.\<close>

definition trx1BtoA :: "main_state \<Rightarrow> int64 option \<Rightarrow> int64 option \<Rightarrow> tx" where
  "trx1BtoA st inA inL =
     \<lparr>tx_nonce = pendingNonceAt (backend st) (pkB st), tx_to = pkA st,
      tx_value = sint (snd (getAmount inA)), tx_gas = snd (getGasLimit inL),
      tx_gasPrice = gasPrice\<rparr>"

definition signedBTx :: "main_state \<Rightarrow> int64 option \<Rightarrow> int64 option \<Rightarrow> signature signed_tx" where
  "signedBTx st inA inL = signTx chainID (pkB st) (trx1BtoA st inA inL)"

definition transaction2 ::
  "(address \<Rightarrow> string) \<Rightarrow> int64 option \<Rightarrow> int64 option \<Rightarrow> main_state \<Rightarrow>
     (stop \<times> string list) + main_state" where
  "transaction2 hex inA inL st =
     (let b = newSimulatedBackend (genesisChain2 (pkA st) (pkB st) (balance1A st) (balance1B st));
          os = out st @ [fst (getAmount inA), fst (getGasLimit inL)]
      in case sendTransaction recover b (signedBTx st inA inL) of
           Inl err \<Rightarrow> Inl (Returned, os @ [error_text err @ NL])
         | Inr b1 \<Rightarrow>
             let b2 = backend_commit b1
             in case transactions (last (chain b2)) of
                  [] \<Rightarrow> Inl (IndexOutOfRange, os)
                | trx2 # _ \<Rightarrow>
                    let os2 = os @
                          [''B - - - '' @ int_dec (tx_value (tx_body (fst trx2))) @ '' - - - > A'' @ NL] @
                          printTrxInfo hex (tx_body (fst trx2))
                    in case extractBalance b2 (pkA st) of
                         Inl p \<Rightarrow> Inl (p, os2)
                       | Inr balA \<Rightarrow>
                           (case extractBalance b2 (pkB st) of
                              Inl p \<Rightarrow> Inl (p, os2 @ [printBalance ''A'' balA])
                            | Inr balB \<Rightarrow>
                                Inr (st\<lparr>backend := b2,
                                       out := os2 @ [printBalance ''A'' balA, printBalance ''B'' balB,
                                                     PRESS_ENTER]\<rparr>)))"

section \<open>main (lines 23-218)\<close>

text \<open>
  The deferred function recovers a panic, prints it and waits for Enter; a plain return
  passes through it silently.
\<close>

definition stop_text :: "stop \<Rightarrow> string" where
  "stop_text s = (case s of
      Returned \<Rightarrow> []
    | Panicked e \<Rightarrow> error_text e
    | IndexOutOfRange \<Rightarrow> ''runtime error: index out of range [0] with length 0'')"

definition main_recover :: "stop \<Rightarrow> string list \<Rightarrow> main_outcome" where
  "main_recover s os =
     (if s = Returned then Stopped s os
      else Stopped s (os @ [''ERROR: '' @ stop_text s @ NL, PRESS_ENTER]))"

definition main_run ::
  "(address \<Rightarrow> string) \<Rightarrow> address \<Rightarrow> address \<Rightarrow>
     int64 option \<Rightarrow> int64 option \<Rightarrow> int64 option \<Rightarrow> int64 option \<Rightarrow> main_outcome" where
  "main_run hex A B amount1 limit1 amount2 limit2 =
     (case transaction1 hex amount1 limit1 (main_setup hex A B) of
        Inl (s, os) \<Rightarrow> main_recover s os
      | Inr st \<Rightarrow>
          (case transaction2 hex amount2 limit2 st of
             Inl (s, os) \<Rightarrow> main_recover s os
           | Inr st' \<Rightarrow> Finished st'))"

section \<open>Lemmas on the program\<close>

subsection \<open>Signing and inputs\<close>

lemma signTx_simps [simp]:
  "tx_body (signTx cid k t) = t"
  "tx_sig (signTx cid k t) = Sig cid k t"
  by (simp_all add: signTx_def)

lemma recover_own_signature [simp]: "eip155_recover cid (Sig cid k t) t = Some k"
  by (simp add: eip155_recover_def)

lemma recover_Some_iff:
  "eip155_recover cid s t = Some k \<longleftrightarrow> sig_chain s = cid \<and> sig_tx s = t \<and> sig_signer s = k"
  by (auto simp: eip155_recover_def)

lemma getAmount_simps [simp]:
  "fst (getAmount inp) = ''Monto transaccion: ''"
  "snd (getAmount inp) = (case inp of None \<Rightarrow> 0 | Some a \<Rightarrow> a)"
  by (simp_all add: getAmount_def)

lemma getGasLimit_simps [simp]:
  "fst (getGasLimit inp) = ''Gas limit [Minimo 21000]: ''"
  "snd (getGasLimit inp) = (case inp of None \<Rightarrow> 0 | Some a \<Rightarrow> a)"
  by (simp_all add: getGasLimit_def)

lemma main_setup_simps [simp]:
  "pkA (main_setup hex A B) = A"
  "pkB (main_setup hex A B) = B"
  "backend (main_setup hex A B) = newSimulatedBackend (genesisChain A B)"
  by (simp_all add: main_setup_def)

lemma genesisChain_balance:
  "getBalance (genesis_ledger (genesisChain A B)) x = (if x = A \<or> x = B then initial_balance else 0)"
  by (simp add: genesisChain_def)

subsection \<open>Decimal strings\<close>

lemma initial_balance_eq: "initial_balance = 10000000"
  by (simp add: initial_balance_def setString_def)

subsection \<open>A signed transfer of the program\<close>

text \<open>
  For a transaction the program signs (gas price 1, signed by \<open>k\<close> for \<open>chainID\<close>),
  submission succeeds exactly when the gas limit, the nonce, the charge and the
  recipient's balance pass their checks.
\<close>

lemma submit_signTx_Applied_iff:
  assumes "tx_gasPrice t = gasPrice"
  shows "status (fst (submit recover l (signTx chainID k t))) = Applied \<longleftrightarrow>
     MINIMUM_TRANSFER_GAS \<le> unat (tx_gas t) \<and> tx_nonce t = getNonce l k \<and>
     tx_charge t \<le> MAX_UINT256 \<and> tx_charge t \<le> getBalance l k \<and> recipient_ok l k t"
  using assms by (auto simp: submit_Applied_iff_valid gasPrice_def validate_Inr_iff)

subsection \<open>A fresh backend after one send and one commit\<close>

lemma send_fresh:
  assumes "sendTransaction rc (newSimulatedBackend g) stx = Inr b1"
  shows "ledger b1 = snd (submit rc (genesis_ledger g) stx)"
    and "status (fst (submit rc (genesis_ledger g) stx)) = Applied"
    and "chain (backend_commit b1) =
           [\<lparr>index = 0, transactions = [], ledgerDigest = genesis_ledger g\<rparr>,
            \<lparr>index = 1, transactions = [(stx, fst (submit rc (genesis_ledger g) stx))],
             ledgerDigest = ledger b1\<rparr>]"
  using assms by (simp_all add: sendTransaction_Inr_iff commit_chain)

lemma extractBalance_fresh:
  assumes "sendTransaction rc (newSimulatedBackend g) stx = Inr b1"
  shows "extractBalance (backend_commit b1) a = Inr (getBalance (ledger b1) a)"
  using send_fresh(3) [OF assms]
  by (simp add: extractBalance_def backend_balanceAt_def balanceAt_def)

subsection \<open>The two phases without their unreachable panics\<close>

abbreviation prompts :: "string list" where
  "prompts \<equiv> [''Monto transaccion: '', ''Gas limit [Minimo 21000]: '']"

lemma transaction1_fresh:
  assumes "backend st = newSimulatedBackend g"
  shows "transaction1 hex inA inL st =
    (case sendTransaction recover (backend st) (signedATx st inA inL) of
       Inl err \<Rightarrow> Inl (Returned, out st @ prompts @ [''ERROR Gas insuficiente'' @ NL])
     | Inr b1 \<Rightarrow>
         Inr (st\<lparr>backend := backend_commit b1,
                balance1A := getBalance (ledger b1) (pkA st),
                balance1B := getBalance (ledger b1) (pkB st),
                out := out st @ prompts @ report1 hex (trx1AtoB st inA inL)
                         (getBalance (ledger b1) (pkA st)) (getBalance (ledger b1) (pkB st))\<rparr>))"
proof (cases "sendTransaction recover (backend st) (signedATx st inA inL)")
  case (Inl e)
  then show ?thesis by (simp add: transaction1_def)
next
  case (Inr b1)
  with assms have "sendTransaction recover (newSimulatedBackend g) (signedATx st inA inL) = Inr b1"
    by simp
  note fresh = send_fresh(3) [OF this] extractBalance_fresh [OF this]
  from Inr assms show ?thesis
    by (simp add: transaction1_def fresh signedATx_def Let_def del: backend_commit_simps)
qed

lemma transaction2_run:
  "transaction2 hex inA inL st =
    (case sendTransaction recover
            (newSimulatedBackend (genesisChain2 (pkA st) (pkB st) (balance1A st) (balance1B st)))
            (signedBTx st inA inL) of
       Inl err \<Rightarrow> Inl (Returned, out st @ prompts @ [error_text err @ NL])
     | Inr b1 \<Rightarrow>
         Inr (st\<lparr>backend := backend_commit b1,
                out := out st @ prompts @
                  [''B - - - '' @ int_dec (tx_value (trx1BtoA st inA inL)) @ '' - - - > A'' @ NL] @
                  printTrxInfo hex (trx1BtoA st inA inL) @
                  [printBalance ''A'' (getBalance (ledger b1) (pkA st)),
                   printBalance ''B'' (getBalance (ledger b1) (pkB st)), PRESS_ENTER]\<rparr>))"
proof (cases "sendTransaction recover
    (newSimulatedBackend (genesisChain2 (pkA st) (pkB st) (balance1A st) (balance1B st)))
    (signedBTx st inA inL)")
  case (Inl e)
  then show ?thesis by (simp add: transaction2_def)
next
  case (Inr b1)
  note fresh = send_fresh(3) [OF Inr] extractBalance_fresh [OF Inr]
  from Inr show ?thesis
    by (simp add: transaction2_def fresh signedBTx_def Let_def del: backend_commit_simps)
qed

subsection \<open>When the program's transfers are applied\<close>

lemma int64_bounds:
  fixes a lim :: "64 word"
  shows "sint a < 2 ^ 63" and "- (2 ^ 63) \<le> sint a" and "int (unat lim) < 2 ^ 64"
  using sint_lt [of a] sint_ge [of a] uint_lt2p [of lim] by simp_all

lemma signed_charge:
  assumes "tx_gasPrice t = gasPrice"
  shows "tx_charge t = tx_value t + int (unat (tx_gas t))"
  using assms by (simp add: tx_charge_def gasPrice_def)

lemma program_tx_simps [simp]:
  "tx_gasPrice (trx1AtoB st inA inL) = gasPrice"
  "tx_value (trx1AtoB st inA inL) = sint (snd (getAmount inA))"
  "tx_gas (trx1AtoB st inA inL) = snd (getGasLimit inL)"
  "tx_to (trx1AtoB st inA inL) = pkB st"
  "tx_nonce (trx1AtoB st inA inL) = pendingNonceAt (backend st) (pkA st)"
  "tx_gasPrice (trx1BtoA st inA inL) = gasPrice"
  "tx_value (trx1BtoA st inA inL) = sint (snd (getAmount inA))"
  "tx_gas (trx1BtoA st inA inL) = snd (getGasLimit inL)"
  "tx_to (trx1BtoA st inA inL) = pkA st"
  "tx_nonce (trx1BtoA st inA inL) = pendingNonceAt (backend st) (pkB st)"
  by (simp_all add: trx1AtoB_def trx1BtoA_def)

text \<open>
  A program transfer of \<open>v\<close> with gas limit \<open>g\<close> from \<open>k\<close>, at \<open>k\<close>'s nonce, on a
  ledger whose balances are below \<open>2^200\<close>: applied exactly when the limit is at least
  the transfer gas and \<open>v + g\<close> is covered by \<open>k\<close>'s balance.
\<close>

lemma program_transfer_Applied_iff:
  fixes a lim :: int64
  assumes "tx_gasPrice t = gasPrice" and "tx_nonce t = getNonce l k"
    and "tx_value t = sint a" and "tx_gas t = lim"
    and "\<forall>x. getBalance l x < 2 ^ 200"
  shows "status (fst (submit recover l (signTx chainID k t))) = Applied \<longleftrightarrow>
     MINIMUM_TRANSFER_GAS \<le> unat lim \<and> sint a + int (unat lim) \<le> getBalance l k"
proof -
  have b: "sint a < 2 ^ 63" "int (unat lim) < 2 ^ 64" "- (2 ^ 63) \<le> sint a"
    using int64_bounds(1,2) [of a] int64_bounds(3) [of lim] by simp_all
  have l: "getBalance l k < 2 ^ 200" "getBalance l (tx_to t) < 2 ^ 200"
    using assms(5) by simp_all
  have "tx_charge t \<le> MAX_UINT256"
    using b assms(3,4) by (simp add: signed_charge [OF assms(1)] MAX_UINT256_def)
  moreover have "MINIMUM_TRANSFER_GAS \<le> unat lim \<Longrightarrow> recipient_ok l k t"
    using b l assms(1,3)
    by (simp add: recipient_ok_def tx_fee_def gasPrice_def MAX_UINT256_def MINIMUM_TRANSFER_GAS_def)
  ultimately show ?thesis
    using assms(1-4) by (auto simp: submit_signTx_Applied_iff signed_charge)
qed

text \<open>The balances after an applied program transfer between two distinct accounts.\<close>

lemma program_transfer_balance:
  assumes "status (fst (submit recover l (signTx chainID k t))) = Applied"
    and "tx_gasPrice t = gasPrice"
  shows "getBalance (snd (submit recover l (signTx chainID k t))) x =
           getBalance l x - (if x = k then tx_value t + int MINIMUM_TRANSFER_GAS else 0)
           + (if x = tx_to t then tx_value t else 0)"
  using submit_applied_balance [OF assms(1), of k] assms(2)
  by (simp add: tx_fee_def gasPrice_def)

lemma genesisChain_small: "\<forall>x. getBalance (genesis_ledger (genesisChain A B)) x < 2 ^ 200"
  by (simp add: genesisChain_def initial_balance_eq)

subsection \<open>The first transfer on the genesis of main\<close>

lemma pendingNonceAt_fresh [simp]: "pendingNonceAt (newSimulatedBackend g) a = 0"
  by (simp add: pendingNonceAt_def)

lemma trx1_Applied_iff:
  "status (fst (submit recover (genesis_ledger (genesisChain A B))
                  (signedATx (main_setup hex A B) inA inL))) = Applied \<longleftrightarrow>
     MINIMUM_TRANSFER_GAS \<le> unat (snd (getGasLimit inL)) \<and>
     sint (snd (getAmount inA)) + int (unat (snd (getGasLimit inL))) \<le> initial_balance"
  unfolding signedATx_def
  by (subst program_transfer_Applied_iff [where a = "snd (getAmount inA)" and lim = "snd (getGasLimit inL)"])
     (simp_all add: genesisChain_balance initial_balance_eq
       del: getAmount_simps getGasLimit_simps getBalance_genesis)

lemma transaction1_setup_Inr_iff:
  "(\<exists>st. transaction1 hex inA inL (main_setup hex A B) = Inr st) \<longleftrightarrow>
     status (fst (submit recover (genesis_ledger (genesisChain A B))
                  (signedATx (main_setup hex A B) inA inL))) = Applied"
proof -
  have "(\<exists>st. transaction1 hex inA inL (main_setup hex A B) = Inr st) \<longleftrightarrow>
        (\<exists>b1. sendTransaction recover (backend (main_setup hex A B))
                (signedATx (main_setup hex A B) inA inL) = Inr b1)"
    by (simp add: transaction1_fresh [where g = "genesisChain A B"] split: sum.split)
  then show ?thesis by (simp add: sendTransaction_Inr_ex)
qed

subsection \<open>The ledger after the first transfer\<close>

lemma trx1_ledger:
  assumes "A \<noteq> B"
    and app: "status (fst (submit recover (genesis_ledger (genesisChain A B))
                (signedATx (main_setup hex A B) inA inL))) = Applied"
  shows "getBalance (snd (submit recover (genesis_ledger (genesisChain A B))
            (signedATx (main_setup hex A B) inA inL))) x =
           (if x = A then initial_balance - sint (snd (getAmount inA)) - int MINIMUM_TRANSFER_GAS
            else if x = B then initial_balance + sint (snd (getAmount inA)) else 0)"
    and "getNonce (snd (submit recover (genesis_ledger (genesisChain A B))
            (signedATx (main_setup hex A B) inA inL))) x = (if x = A then 1 else 0)"
proof -
  show "getBalance (snd (submit recover (genesis_ledger (genesisChain A B))
            (signedATx (main_setup hex A B) inA inL))) x =
           (if x = A then initial_balance - sint (snd (getAmount inA)) - int MINIMUM_TRANSFER_GAS
            else if x = B then initial_balance + sint (snd (getAmount inA)) else 0)"
    using program_transfer_balance [OF app [unfolded signedATx_def], of x] assms(1)
    by (simp add: signedATx_def genesisChain_def del: getAmount_simps)
  show "getNonce (snd (submit recover (genesis_ledger (genesisChain A B))
            (signedATx (main_setup hex A B) inA inL))) x = (if x = A then 1 else 0)"
    using submit_nonce [of recover "genesis_ledger (genesisChain A B)"
        "signedATx (main_setup hex A B) inA inL" x] app
    by (simp add: signedATx_def)
qed

lemma transaction1_Inr:
  assumes "status (fst (submit recover (genesis_ledger (genesisChain A B))
             (signedATx (main_setup hex A B) inA inL))) = Applied"
  obtains b1 where
    "sendTransaction recover (newSimulatedBackend (genesisChain A B))
       (signedATx (main_setup hex A B) inA inL) = Inr b1"
    and "ledger b1 = snd (submit recover (genesis_ledger (genesisChain A B))
                       (signedATx (main_setup hex A B) inA inL))"
    and "transaction1 hex inA inL (main_setup hex A B) =
       Inr ((main_setup hex A B)\<lparr>backend := backend_commit b1,
              balance1A := getBalance (ledger b1) A, balance1B := getBalance (ledger b1) B,
              out := out (main_setup hex A B) @ prompts @
                report1 hex (trx1AtoB (main_setup hex A B) inA inL)
                  (getBalance (ledger b1) A) (getBalance (ledger b1) B)\<rparr>)"
proof -
  from assms obtain b1 where send: "sendTransaction recover (newSimulatedBackend (genesisChain A B))
       (signedATx (main_setup hex A B) inA inL) = Inr b1"
    using sendTransaction_Inr_ex by fastforce
  with that show ?thesis
    by (simp add: send_fresh(1) transaction1_fresh [where g = "genesisChain A B"])
qed

lemma transaction1_Inl:
  assumes "status (fst (submit recover (genesis_ledger (genesisChain A B))
             (signedATx (main_setup hex A B) inA inL))) \<noteq> Applied"
  shows "transaction1 hex inA inL (main_setup hex A B) =
           Inl (Returned, out (main_setup hex A B) @ prompts @ [''ERROR Gas insuficiente'' @ NL])"
proof -
  from assms obtain e where "sendTransaction recover (newSimulatedBackend (genesisChain A B))
       (signedATx (main_setup hex A B) inA inL) = Inl e"
    by (cases "status (fst (submit recover (genesis_ledger (genesisChain A B))
             (signedATx (main_setup hex A B) inA inL)))")
       (auto simp: sendTransaction_Inl_iff)
  then show ?thesis
    by (simp add: transaction1_fresh [where g = "genesisChain A B"])
qed

text \<open>Everything a completed first transfer leaves behind, read off \<open>transaction1\<close>.\<close>

lemma transaction1_Inr_run:
  assumes "transaction1 hex inA inL (main_setup hex A B) = Inr st"
  defines "stx \<equiv> signedATx (main_setup hex A B) inA inL"
  shows "status (fst (submit recover (genesis_ledger (genesisChain A B)) stx)) = Applied"
    and "ledger (backend st) = snd (submit recover (genesis_ledger (genesisChain A B)) stx)"
    and "chain (backend st) =
           [\<lparr>index = 0, transactions = [], ledgerDigest = genesis_ledger (genesisChain A B)\<rparr>,
            \<lparr>index = 1, transactions = [(stx, fst (submit recover (genesis_ledger (genesisChain A B)) stx))],
             ledgerDigest = ledger (backend st)\<rparr>]"
    and "pending (backend st) = []"
    and "balance1A st = getBalance (ledger (backend st)) A"
    and "balance1B st = getBalance (ledger (backend st)) B"
    and "out st = out (main_setup hex A B) @ prompts @
           report1 hex (trx1AtoB (main_setup hex A B) inA inL) (balance1A st) (balance1B st)"
    and "pkA st = A" and "pkB st = B"
    and "reachable recover (genesisChain A B) (backend st)"
proof -
  have app: "status (fst (submit recover (genesis_ledger (genesisChain A B)) stx)) = Applied"
    using assms(1) transaction1_setup_Inr_iff unfolding stx_def by blast
  then obtain b1 where send: "sendTransaction recover (newSimulatedBackend (genesisChain A B)) stx = Inr b1"
    and l: "ledger b1 = snd (submit recover (genesis_ledger (genesisChain A B)) stx)"
    and t: "transaction1 hex inA inL (main_setup hex A B) =
       Inr ((main_setup hex A B)\<lparr>backend := backend_commit b1,
              balance1A := getBalance (ledger b1) A, balance1B := getBalance (ledger b1) B,
              out := out (main_setup hex A B) @ prompts @
                report1 hex (trx1AtoB (main_setup hex A B) inA inL)
                  (getBalance (ledger b1) A) (getBalance (ledger b1) B)\<rparr>)"
    unfolding stx_def by (rule transaction1_Inr)
  from t assms(1) have st: "st = (main_setup hex A B)\<lparr>backend := backend_commit b1,
              balance1A := getBalance (ledger b1) A, balance1B := getBalance (ledger b1) B,
              out := out (main_setup hex A B) @ prompts @
                report1 hex (trx1AtoB (main_setup hex A B) inA inL)
                  (getBalance (ledger b1) A) (getBalance (ledger b1) B)\<rparr>"
    by simp
  show "status (fst (submit recover (genesis_ledger (genesisChain A B)) stx)) = Applied" by (rule app)
  show "ledger (backend st) = snd (submit recover (genesis_ledger (genesisChain A B)) stx)"
    using st l by simp
  show "chain (backend st) =
           [\<lparr>index = 0, transactions = [], ledgerDigest = genesis_ledger (genesisChain A B)\<rparr>,
            \<lparr>index = 1, transactions = [(stx, fst (submit recover (genesis_ledger (genesisChain A B)) stx))],
             ledgerDigest = ledger (backend st)\<rparr>]"
    using st send_fresh(3) [OF send] by (simp add: backend_commit_def)
  show "pending (backend st) = []" "balance1A st = getBalance (ledger (backend st)) A"
    "balance1B st = getBalance (ledger (backend st)) B"
    "out st = out (main_setup hex A B) @ prompts @
           report1 hex (trx1AtoB (main_setup hex A B) inA inL) (balance1A st) (balance1B st)"
    "pkA st = A" "pkB st = B"
    using st by simp_all
  have "reachable recover (genesisChain A B) (backend_commit b1)"
    by (rule reachable.commit [OF reachable.send [OF reachable.genesis send]])
  then show "reachable recover (genesisChain A B) (backend st)" using st by simp
qed

lemma genesisChain_supply:
  "A \<noteq> B \<Longrightarrow> genesis_supply (genesisChain A B) = 2 * initial_balance"
  by (simp add: genesis_supply_def total_supply_genesis genesisChain_def)

subsection \<open>The second transfer\<close>

lemma genesisChain2_balance:
  "A \<noteq> B \<Longrightarrow> getBalance (genesis_ledger (genesisChain2 A B balA balB)) x =
     (if x = A then balA else if x = B then balB else 0)"
  by (simp add: genesisChain2_def)

lemma trx2_Applied_iff:
  assumes "A \<noteq> B" and "pkA st = A" and "pkB st = B" and "pendingNonceAt (backend st) B = 0"
    and "balA < 2 ^ 200" and "balB < 2 ^ 200"
  shows "status (fst (submit recover (genesis_ledger (genesisChain2 A B balA balB))
                  (signedBTx st inA inL))) = Applied \<longleftrightarrow>
     MINIMUM_TRANSFER_GAS \<le> unat (snd (getGasLimit inL)) \<and>
     sint (snd (getAmount inA)) + int (unat (snd (getGasLimit inL))) \<le> balB"
  unfolding signedBTx_def
  using assms
  by (subst program_transfer_Applied_iff [where a = "snd (getAmount inA)" and lim = "snd (getGasLimit inL)"])
     (simp_all add: genesisChain2_balance del: getAmount_simps getGasLimit_simps getBalance_genesis)

lemma trx2_ledger:
  assumes "A \<noteq> B" and "pkA st = A" and "pkB st = B"
    and app: "status (fst (submit recover (genesis_ledger (genesisChain2 A B balA balB))
                (signedBTx st inA inL))) = Applied"
  shows "getBalance (snd (submit recover (genesis_ledger (genesisChain2 A B balA balB))
            (signedBTx st inA inL))) x =
           (if x = A then balA + sint (snd (getAmount inA))
            else if x = B then balB - sint (snd (getAmount inA)) - int MINIMUM_TRANSFER_GAS else 0)"
    and "getNonce (snd (submit recover (genesis_ledger (genesisChain2 A B balA balB))
            (signedBTx st inA inL))) x = (if x = B then 1 else 0)"
proof -
  show "getBalance (snd (submit recover (genesis_ledger (genesisChain2 A B balA balB))
            (signedBTx st inA inL))) x =
           (if x = A then balA + sint (snd (getAmount inA))
            else if x = B then balB - sint (snd (getAmount inA)) - int MINIMUM_TRANSFER_GAS else 0)"
    using program_transfer_balance [OF app [unfolded signedBTx_def], of x] assms(1-3)
    by (simp add: signedBTx_def genesisChain2_balance del: getAmount_simps getBalance_genesis)
  show "getNonce (snd (submit recover (genesis_ledger (genesisChain2 A B balA balB))
            (signedBTx st inA inL))) x = (if x = B then 1 else 0)"
    using submit_nonce [of recover "genesis_ledger (genesisChain2 A B balA balB)"
        "signedBTx st inA inL" x] app assms(3)
    by (simp add: signedBTx_def)
qed

lemma signedBTx_cong:
  assumes "pkA st = pkA st'" and "pkB st = pkB st'"
    and "pendingNonceAt (backend st) (pkB st) = pendingNonceAt (backend st') (pkB st')"
  shows "signedBTx st inA inL = signedBTx st' inA inL"
  using assms by (simp add: signedBTx_def trx1BtoA_def)

lemma transaction2_Inr:
  assumes "status (fst (submit recover
             (genesis_ledger (genesisChain2 (pkA st) (pkB st) (balance1A st) (balance1B st)))
             (signedBTx st inA inL))) = Applied"
  obtains st2 where "transaction2 hex inA inL st = Inr st2"
    and "ledger (backend st2) = snd (submit recover
        (genesis_ledger (genesisChain2 (pkA st) (pkB st) (balance1A st) (balance1B st)))
        (signedBTx st inA inL))"
    and "pkA st2 = pkA st" and "pkB st2 = pkB st"
    and "balance1A st2 = balance1A st" and "balance1B st2 = balance1B st"
proof -
  from assms obtain b2 where send: "sendTransaction recover
      (newSimulatedBackend (genesisChain2 (pkA st) (pkB st) (balance1A st) (balance1B st)))
      (signedBTx st inA inL) = Inr b2"
    using sendTransaction_Inr_ex by fastforce
  define st2 where "st2 = projr (transaction2 hex inA inL st)"
  have t2: "transaction2 hex inA inL st = Inr st2"
    by (simp add: st2_def transaction2_run send)
  show ?thesis
    by (rule that [OF t2]) (simp_all add: st2_def transaction2_run send send_fresh(1) [OF send])
qed

lemma transaction2_Inl:
  assumes "status (fst (submit recover
             (genesis_ledger (genesisChain2 (pkA st) (pkB st) (balance1A st) (balance1B st)))
             (signedBTx st inA inL))) \<noteq> Applied"
  shows "\<exists>e. transaction2 hex inA inL st = Inl (Returned, out st @ prompts @ [error_text e @ NL])"
proof -
  from assms obtain e where "sendTransaction recover
      (newSimulatedBackend (genesisChain2 (pkA st) (pkB st) (balance1A st) (balance1B st)))
      (signedBTx st inA inL) = Inl e"
    by (cases "status (fst (submit recover
             (genesis_ledger (genesisChain2 (pkA st) (pkB st) (balance1A st) (balance1B st)))
             (signedBTx st inA inL)))")
       (auto simp: sendTransaction_Inl_iff)
  then show ?thesis by (simp add: transaction2_run) blast
qed

subsection \<open>main, end to end\<close>

text \<open>The two input conditions under which both transfers of main are applied.\<close>

abbreviation inputs_ok1 :: "int64 option \<Rightarrow> int64 option \<Rightarrow> bool" where
  "inputs_ok1 i1 i2 \<equiv>
     MINIMUM_TRANSFER_GAS \<le> unat (snd (getGasLimit i2)) \<and>
     sint (snd (getAmount i1)) + int (unat (snd (getGasLimit i2))) \<le> initial_balance"

abbreviation inputs_ok2 :: "int64 option \<Rightarrow> int64 option \<Rightarrow> int64 option \<Rightarrow> bool" where
  "inputs_ok2 i1 i3 i4 \<equiv>
     MINIMUM_TRANSFER_GAS \<le> unat (snd (getGasLimit i4)) \<and>
     sint (snd (getAmount i3)) + int (unat (snd (getGasLimit i4))) \<le>
       initial_balance + sint (snd (getAmount i1))"

lemma balance_after_trx1_small:
  fixes a :: int64
  shows "initial_balance - sint a - int MINIMUM_TRANSFER_GAS < 2 ^ 200"
    and "initial_balance + sint a < 2 ^ 200"
  using int64_bounds(1,2) [of a]
  by (simp_all add: initial_balance_eq MINIMUM_TRANSFER_GAS_def)

lemma main_run_Finished:
  assumes "A \<noteq> B" and ok1: "inputs_ok1 i1 i2" and ok2: "inputs_ok2 i1 i3 i4"
  shows "\<exists>st. main_run hex A B i1 i2 i3 i4 = Finished st \<and> pkA st = A \<and> pkB st = B \<and>
     balance1A st = initial_balance - sint (snd (getAmount i1)) - int MINIMUM_TRANSFER_GAS \<and>
     balance1B st = initial_balance + sint (snd (getAmount i1)) \<and>
     ledger (backend st) =
       snd (submit recover (genesis_ledger (genesisChain2 A B (balance1A st) (balance1B st)))
              (signedBTx (main_setup hex A B) i3 i4)) \<and>
     status (fst (submit recover (genesis_ledger (genesisChain2 A B (balance1A st) (balance1B st)))
              (signedBTx (main_setup hex A B) i3 i4))) = Applied"
proof -
  let ?s0 = "main_setup hex A B" and ?g = "genesisChain A B"
  let ?balA = "initial_balance - sint (snd (getAmount i1)) - int MINIMUM_TRANSFER_GAS"
  let ?balB = "initial_balance + sint (snd (getAmount i1))"
  from ok1 have app1: "status (fst (submit recover (genesis_ledger ?g) (signedATx ?s0 i1 i2))) = Applied"
    by (simp only: trx1_Applied_iff)
  then obtain b1 where l1: "ledger b1 = snd (submit recover (genesis_ledger ?g) (signedATx ?s0 i1 i2))"
    and t1: "transaction1 hex i1 i2 ?s0 =
       Inr (?s0\<lparr>backend := backend_commit b1,
              balance1A := getBalance (ledger b1) A, balance1B := getBalance (ledger b1) B,
              out := out ?s0 @ prompts @ report1 hex (trx1AtoB ?s0 i1 i2)
                  (getBalance (ledger b1) A) (getBalance (ledger b1) B)\<rparr>)"
    by (rule transaction1_Inr)
  define st1 where "st1 = ?s0\<lparr>backend := backend_commit b1,
              balance1A := getBalance (ledger b1) A, balance1B := getBalance (ledger b1) B,
              out := out ?s0 @ prompts @ report1 hex (trx1AtoB ?s0 i1 i2)
                  (getBalance (ledger b1) A) (getBalance (ledger b1) B)\<rparr>"
  have st1: "pkA st1 = A" "pkB st1 = B" "balance1A st1 = ?balA" "balance1B st1 = ?balB"
    "pendingNonceAt (backend st1) B = 0"
    using trx1_ledger [OF assms(1) app1] l1 assms(1)
    by (simp_all add: st1_def pendingNonceAt_def)
  have sB: "signedBTx st1 i3 i4 = signedBTx ?s0 i3 i4"
    using st1 by (intro signedBTx_cong) simp_all
  have app2: "status (fst (submit recover (genesis_ledger (genesisChain2 A B ?balA ?balB))
                  (signedBTx st1 i3 i4))) = Applied"
    using ok2 st1 balance_after_trx1_small [of "snd (getAmount i1)"]
    by (subst trx2_Applied_iff [OF assms(1)]) simp_all
  then have "status (fst (submit recover
      (genesis_ledger (genesisChain2 (pkA st1) (pkB st1) (balance1A st1) (balance1B st1)))
      (signedBTx st1 i3 i4))) = Applied"
    using st1 by simp
  then obtain st2 where t2: "transaction2 hex i3 i4 st1 = Inr st2"
    and l2': "ledger (backend st2) = snd (submit recover
        (genesis_ledger (genesisChain2 (pkA st1) (pkB st1) (balance1A st1) (balance1B st1)))
        (signedBTx st1 i3 i4))"
    and st2': "pkA st2 = pkA st1" "pkB st2 = pkB st1"
      "balance1A st2 = balance1A st1" "balance1B st2 = balance1B st1"
    by (rule transaction2_Inr)
  have st2: "pkA st2 = A" "pkB st2 = B" "balance1A st2 = ?balA" "balance1B st2 = ?balB"
    using st1 st2' by simp_all
  have l2: "ledger (backend st2) = snd (submit recover
        (genesis_ledger (genesisChain2 A B ?balA ?balB)) (signedBTx st1 i3 i4))"
    using l2' st1 by simp
  have t1': "transaction1 hex i1 i2 ?s0 = Inr st1"
    using t1 by (simp only: st1_def)
  have "main_run hex A B i1 i2 i3 i4 = Finished st2"
    using t1' t2 by (simp add: main_run_def)
  with st2 l2 app2 sB show ?thesis by auto
qed

lemma main_run_Returned:
  assumes "A \<noteq> B" and "\<not> (inputs_ok1 i1 i2 \<and> inputs_ok2 i1 i3 i4)"
  shows "\<exists>os. main_run hex A B i1 i2 i3 i4 = Stopped Returned os"
proof (cases "inputs_ok1 i1 i2")
  case False
  then have "status (fst (submit recover (genesis_ledger (genesisChain A B))
                (signedATx (main_setup hex A B) i1 i2))) \<noteq> Applied"
    by (simp only: trx1_Applied_iff) simp
  then show ?thesis
    by (simp add: main_run_def main_recover_def transaction1_Inl)
next
  case True
  let ?s0 = "main_setup hex A B" and ?g = "genesisChain A B"
  from True have app1: "status (fst (submit recover (genesis_ledger ?g) (signedATx ?s0 i1 i2))) = Applied"
    by (simp only: trx1_Applied_iff)
  then obtain b1 where l1: "ledger b1 = snd (submit recover (genesis_ledger ?g) (signedATx ?s0 i1 i2))"
    and t1: "transaction1 hex i1 i2 ?s0 =
       Inr (?s0\<lparr>backend := backend_commit b1,
              balance1A := getBalance (ledger b1) A, balance1B := getBalance (ledger b1) B,
              out := out ?s0 @ prompts @ report1 hex (trx1AtoB ?s0 i1 i2)
                  (getBalance (ledger b1) A) (getBalance (ledger b1) B)\<rparr>)"
    by (rule transaction1_Inr)
  define st1 where "st1 = ?s0\<lparr>backend := backend_commit b1,
              balance1A := getBalance (ledger b1) A, balance1B := getBalance (ledger b1) B,
              out := out ?s0 @ prompts @ report1 hex (trx1AtoB ?s0 i1 i2)
                  (getBalance (ledger b1) A) (getBalance (ledger b1) B)\<rparr>"
  have st1: "pkA st1 = A" "pkB st1 = B"
    "balance1A st1 = initial_balance - sint (snd (getAmount i1)) - int MINIMUM_TRANSFER_GAS"
    "balance1B st1 = initial_balance + sint (snd (getAmount i1))"
    "pendingNonceAt (backend st1) B = 0"
    using trx1_ledger [OF assms(1) app1] l1 assms(1)
    by (simp_all add: st1_def pendingNonceAt_def)
  from True assms(2) have "\<not> inputs_ok2 i1 i3 i4" by blast
  moreover have "status (fst (submit recover
             (genesis_ledger (genesisChain2 A B (balance1A st1) (balance1B st1)))
             (signedBTx st1 i3 i4))) = Applied \<longleftrightarrow> inputs_ok2 i1 i3 i4"
    using st1 balance_after_trx1_small [of "snd (getAmount i1)"]
    by (subst trx2_Applied_iff [OF assms(1) st1(1,2,5)]) simp_all
  ultimately have "status (fst (submit recover
             (genesis_ledger (genesisChain2 (pkA st1) (pkB st1) (balance1A st1) (balance1B st1)))
             (signedBTx st1 i3 i4))) \<noteq> Applied"
    using st1(1,2) by simp
  then obtain e where t2: "transaction2 hex i3 i4 st1 = Inl (Returned, out st1 @ prompts @ [error_text e @ NL])"
    using transaction2_Inl by blast
  have t1': "transaction1 hex i1 i2 ?s0 = Inr st1"
    using t1 by (simp only: st1_def)
  from t1' t2 show ?thesis
    by (simp add: main_run_def main_recover_def)
qed

subsection \<open>The same two transactions on one persistent ledger\<close>

text \<open>
  The spec (section 9) replaces the program's second network by the one ledger of the
  first: both signed transactions are submitted in order to the genesis ledger.
\<close>

lemma submit_all_two:
  "snd (submit_all rc l [x, y]) = snd (submit rc (snd (submit rc l x)) y)"
  by (cases "submit rc l x"; cases "submit rc (snd (submit rc l x)) y") simp_all

lemma persistent_run:
  fixes hex :: "address \<Rightarrow> string"
  assumes "A \<noteq> B" and ok1: "inputs_ok1 i1 i2" and ok2: "inputs_ok2 i1 i3 i4"
  defines "lp \<equiv> snd (submit_all recover (genesis_ledger (genesisChain A B))
                  [signedATx (main_setup hex A B) i1 i2, signedBTx (main_setup hex A B) i3 i4])"
  shows "getBalance lp x =
           (if x = A then initial_balance - sint (snd (getAmount i1)) - int MINIMUM_TRANSFER_GAS
                          + sint (snd (getAmount i3))
            else if x = B then initial_balance + sint (snd (getAmount i1))
                          - sint (snd (getAmount i3)) - int MINIMUM_TRANSFER_GAS
            else 0)"
    and "getNonce lp x = (if x = A \<or> x = B then 1 else 0)"
proof -
  let ?s0 = "main_setup hex A B" and ?g = "genesisChain A B"
  let ?l1 = "snd (submit recover (genesis_ledger ?g) (signedATx ?s0 i1 i2))"
  from ok1 have app1: "status (fst (submit recover (genesis_ledger ?g) (signedATx ?s0 i1 i2))) = Applied"
    by (simp only: trx1_Applied_iff)
  note l1 = trx1_ledger [OF assms(1) app1]
  have small: "\<forall>x. getBalance ?l1 x < 2 ^ 200"
    using balance_after_trx1_small [of "snd (getAmount i1)"] by (simp add: l1)
  have app2: "status (fst (submit recover ?l1 (signedBTx ?s0 i3 i4))) = Applied"
    unfolding signedBTx_def
    using ok2 assms(1) small
    by (subst program_transfer_Applied_iff [where a = "snd (getAmount i3)" and lim = "snd (getGasLimit i4)"])
       (simp_all add: l1 pendingNonceAt_def del: getAmount_simps getGasLimit_simps)
  have lp: "lp = snd (submit recover ?l1 (signedBTx ?s0 i3 i4))"
    unfolding lp_def by (rule submit_all_two)
  show "getBalance lp x =
           (if x = A then initial_balance - sint (snd (getAmount i1)) - int MINIMUM_TRANSFER_GAS
                          + sint (snd (getAmount i3))
            else if x = B then initial_balance + sint (snd (getAmount i1))
                          - sint (snd (getAmount i3)) - int MINIMUM_TRANSFER_GAS
            else 0)"
    using program_transfer_balance [OF app2 [unfolded signedBTx_def], of x] assms(1)
    by (simp add: lp signedBTx_def l1 del: getAmount_simps)
  show "getNonce lp x = (if x = A \<or> x = B then 1 else 0)"
    using submit_nonce [of recover ?l1 "signedBTx ?s0 i3 i4" x] app2 assms(1)
    by (simp add: lp signedBTx_def l1)
qed

lemma main_final_ledger:
  assumes "A \<noteq> B" and "main_run hex A B i1 i2 i3 i4 = Finished st"
  shows "inputs_ok1 i1 i2 \<and> inputs_ok2 i1 i3 i4"
    and "getBalance (ledger (backend st)) x =
           (if x = A then initial_balance - sint (snd (getAmount i1)) - int MINIMUM_TRANSFER_GAS
                          + sint (snd (getAmount i3))
            else if x = B then initial_balance + sint (snd (getAmount i1))
                          - sint (snd (getAmount i3)) - int MINIMUM_TRANSFER_GAS
            else 0)"
    and "getNonce (ledger (backend st)) x = (if x = B then 1 else 0)"
    and "total_supply (ledger (backend st)) + int MINIMUM_TRANSFER_GAS =
           balance1A st + balance1B st"
    and "balance1A st = initial_balance - sint (snd (getAmount i1)) - int MINIMUM_TRANSFER_GAS"
    and "balance1B st = initial_balance + sint (snd (getAmount i1))"
proof -
  show ok: "inputs_ok1 i1 i2 \<and> inputs_ok2 i1 i3 i4"
  proof (rule ccontr)
    assume "\<not> (inputs_ok1 i1 i2 \<and> inputs_ok2 i1 i3 i4)"
    from main_run_Returned [OF assms(1) this, where hex = hex] assms(2) show False
      by auto
  qed
  then obtain st' where f: "main_run hex A B i1 i2 i3 i4 = Finished st'" and
    st': "pkA st' = A" "pkB st' = B"
      "balance1A st' = initial_balance - sint (snd (getAmount i1)) - int MINIMUM_TRANSFER_GAS"
      "balance1B st' = initial_balance + sint (snd (getAmount i1))"
    and l: "ledger (backend st') =
       snd (submit recover (genesis_ledger (genesisChain2 A B (balance1A st') (balance1B st')))
              (signedBTx (main_setup hex A B) i3 i4))"
    and app: "status (fst (submit recover (genesis_ledger (genesisChain2 A B (balance1A st') (balance1B st')))
              (signedBTx (main_setup hex A B) i3 i4))) = Applied"
    using main_run_Finished [OF assms(1) conjunct1 [OF ok] conjunct2 [OF ok], where hex = hex]
    by blast
  from f assms(2) have "st' = st" by simp
  note facts = st' [unfolded this] l [unfolded this] app [unfolded this]
  note l2 = trx2_ledger [where st = "main_setup hex A B",
      OF assms(1) main_setup_simps(1) main_setup_simps(2) facts(6)]
  show "getBalance (ledger (backend st)) x =
           (if x = A then initial_balance - sint (snd (getAmount i1)) - int MINIMUM_TRANSFER_GAS
                          + sint (snd (getAmount i3))
            else if x = B then initial_balance + sint (snd (getAmount i1))
                          - sint (snd (getAmount i3)) - int MINIMUM_TRANSFER_GAS
            else 0)"
    using facts(5) l2(1) [of x] by (simp add: facts(3,4))
  show "getNonce (ledger (backend st)) x = (if x = B then 1 else 0)"
    using facts(5) l2(2) [of x] by simp
  have "total_supply (ledger (backend st)) + totalCost (fst (submit recover
           (genesis_ledger (genesisChain2 A B (balance1A st) (balance1B st)))
           (signedBTx (main_setup hex A B) i3 i4))) =
        total_supply (genesis_ledger (genesisChain2 A B (balance1A st) (balance1B st)))"
    using submit_total_supply facts(5) by metis
  moreover have "totalCost (fst (submit recover
           (genesis_ledger (genesisChain2 A B (balance1A st) (balance1B st)))
           (signedBTx (main_setup hex A B) i3 i4))) = int MINIMUM_TRANSFER_GAS"
    using facts(6) by (auto simp: submit_Applied_iff tx_fee_def signedBTx_def gasPrice_def)
  moreover have "total_supply (genesis_ledger (genesisChain2 A B (balance1A st) (balance1B st))) =
        balance1A st + balance1B st"
    using assms(1) by (simp add: total_supply_genesis genesisChain2_def)
  ultimately show "total_supply (ledger (backend st)) + int MINIMUM_TRANSFER_GAS =
           balance1A st + balance1B st"
    by simp
  show "balance1A st = initial_balance - sint (snd (getAmount i1)) - int MINIMUM_TRANSFER_GAS"
    and "balance1B st = initial_balance + sint (snd (getAmount i1))"
    using facts(3,4) by simp_all
qed

text \<open>A finished run went through both phases.\<close>

lemma main_run_Finished_phases:
  assumes "main_run hex A B i1 i2 i3 i4 = Finished st"
  obtains st1 where "transaction1 hex i1 i2 (main_setup hex A B) = Inr st1"
    and "transaction2 hex i3 i4 st1 = Inr st"
  using assms by (auto simp: main_run_def main_recover_def split: sum.splits prod.splits if_splits)

text \<open>The second phase's output and final ledger, when it completes.\<close>

lemma transaction2_Inr_run:
  assumes "transaction2 hex inA inL st = Inr st2"
  shows "out st2 = out st @ prompts @
           [''B - - - '' @ int_dec (tx_value (trx1BtoA st inA inL)) @ '' - - - > A'' @ NL] @
           printTrxInfo hex (trx1BtoA st inA inL) @
           [printBalance ''A'' (getBalance (ledger (backend st2)) (pkA st)),
            printBalance ''B'' (getBalance (ledger (backend st2)) (pkB st)), PRESS_ENTER]"
proof (cases "sendTransaction recover
    (newSimulatedBackend (genesisChain2 (pkA st) (pkB st) (balance1A st) (balance1B st)))
    (signedBTx st inA inL)")
  case (Inl e)
  with assms show ?thesis by (simp add: transaction2_run)
next
  case (Inr b1)
  with assms show ?thesis by (auto simp: transaction2_run)
qed

lemma trx1BtoA_after_transaction1:
  assumes "A \<noteq> B" and "transaction1 hex i1 i2 (main_setup hex A B) = Inr st1"
  shows "trx1BtoA st1 inA inL = trx1BtoA (main_setup hex A B) inA inL"
proof -
  have "pendingNonceAt (backend st1) B = 0"
    using transaction1_Inr_run(2) [OF assms(2)]
      trx1_ledger(2) [OF assms(1) transaction1_Inr_run(1) [OF assms(2)], of B] assms(1)
    by (simp add: pendingNonceAt_def)
  then show ?thesis
    using transaction1_Inr_run(8,9) [OF assms(2)] by (simp add: trx1BtoA_def)
qed

text \<open>A's first signed transaction is stale on any ledger where A has already sent.\<close>

lemma signedATx_stale_rejected:
  assumes "MINIMUM_TRANSFER_GAS \<le> unat (snd (getGasLimit inL))" and "0 < getNonce l A"
  shows "submit recover l (signedATx (main_setup hex A B) inA inL) =
           (rejected_receipt (signedATx (main_setup hex A B) inA inL) NonceMismatch, l)"
proof (rule nonce_below_rejected)
  show "recover (tx_sig (signedATx (main_setup hex A B) inA inL))
          (tx_body (signedATx (main_setup hex A B) inA inL)) = Some A"
    by (simp add: signedATx_def)
  show "MINIMUM_TRANSFER_GAS \<le> unat (tx_gas (tx_body (signedATx (main_setup hex A B) inA inL)))"
    using assms(1) by (simp add: signedATx_def del: getGasLimit_simps)
  show "tx_nonce (tx_body (signedATx (main_setup hex A B) inA inL)) < getNonce l A"
    using assms(2) by (simp add: signedATx_def)
qed

text \<open>The final network's balances stay far below the 256-bit bound.\<close>

lemma main_final_small:
  assumes "A \<noteq> B" and "main_run hex A B i1 i2 i3 i4 = Finished st"
  shows "\<forall>x. getBalance (ledger (backend st)) x < 2 ^ 200"
proof
  fix x
  show "getBalance (ledger (backend st)) x < 2 ^ 200"
    using main_final_ledger(2) [OF assms, of x]
      int64_bounds(1,2) [of "snd (getAmount i1)"] int64_bounds(1,2) [of "snd (getAmount i3)"]
    by (simp add: initial_balance_eq MINIMUM_TRANSFER_GAS_def del: getAmount_simps)
qed

subsection \<open>main stops only by returning\<close>

lemma transaction1_setup_Inl:
  "transaction1 hex inA inL (main_setup hex A B) = Inl (s, os) \<Longrightarrow> s = Returned"
  by (simp add: transaction1_fresh [where g = "genesisChain A B"] split: sum.splits)

lemma transaction2_Inl_Returned:
  "transaction2 hex inA inL st = Inl (s, os) \<Longrightarrow> s = Returned"
  by (simp add: transaction2_run split: sum.splits)

end
