(* ===== verification/Spec2Isabelle.thy ===== *)
theory Spec2Isabelle
  imports Program
begin

text \<open>
  \<^bold>\<open>A verification library for src/main.go of TPCripto.\<close>

  \<^bold>\<open>The program.\<close> \<open>src/main.go\<close> is one Go file. \<open>main\<close> creates two key pairs
  (clients A and B) and a go-ethereum simulated backend whose genesis gives each
  10,000,000 wei. It then makes two transfers:
  \<^item> A to B (lines 80-146): read A's pending nonce, read an amount and a gas limit
    (\<open>getAmount\<close>, \<open>getGasLimit\<close>, lines 221-234), build and EIP-155-sign the transaction,
    send it, commit, read both balances at block 1 (\<open>extractBalance\<close>, 248-255) and print
    the block's first transaction (\<open>printTrxInfo\<close>, 237-245; \<open>printBalance\<close>, 258-260);
  \<^item> B to A (lines 148-217): build a second, fresh backend from the balances read at
    block 1, with B's nonce read from the first backend, then send, commit and print in
    the same way.

  The go-ethereum backend is library code, not under \<open>src/\<close>. It is modelled from the
  specification's settlement core:
  \<^item> an account ledger, a five-check transaction validator, a validate-then-apply
    execution engine and an append-only block committer with snapshots;
  \<^item> this core is composed into the simulated backend's interface: \<open>SendTransaction\<close>,
    \<open>Commit\<close>, \<open>PendingNonceAt\<close>, \<open>BalanceAt\<close>.

  \<^bold>\<open>Theories.\<close>
  \<^descr>[\<open>Prelude\<close>] the model's types:
    \<^item> \<open>address\<close> is a 160-bit word;
    \<^item> \<open>wei\<close> is an unbounded \<open>int\<close> (Go's \<open>big.Int\<close>);
    \<^item> \<open>int64\<close> and \<open>uint64\<close> are 64-bit words;
    \<^item> the error taxonomy of spec section 7, and the 256-bit bound.

    It also holds the fact collections and the shared lemmas on sums and sum types.
  \<^descr>[\<open>Ledger\<close>] the account ledger as a map \<open>address \<rightharpoonup> account\<close>, a record of
    balance and nonce. Absent addresses read as balance 0 and nonce 0. \<open>applyTransfer\<close>
    is all-or-nothing. Lemmas: its exact effect, its frame, conservation of the supply, and
    preservation of the 256-bit balance invariant.
  \<^descr>[\<open>Validator\<close>] the transaction record (the fields of \<open>types.NewTransaction\<close>) and
    \<open>validate\<close>, the five checks in their order. It runs over any signing provider, given
    as a recovery function. Lemmas: acceptance, and each rejection under the earlier checks
    passing.
  \<^descr>[\<open>Engine\<close>] receipts and \<open>submit\<close>: validate, then apply with fee
    \<open>21000 * gasPrice\<close>; also \<open>submit_all\<close> over a sequence. Lemmas:
    \<^item> the three outcomes, and the ledger untouched on rejection;
    \<^item> the supply decreases by exactly the receipt's cost;
    \<^item> nonces are monotone, and a stale nonce is rejected;
    \<^item> the invariant is preserved along any sequence.
  \<^descr>[\<open>Committer\<close>] blocks and the chain; \<open>commit\<close>, \<open>balanceAt\<close>, \<open>currentIndex\<close>. Lemmas:
    \<^item> indices equal positions;
    \<^item> old heights are unchanged by later commits;
    \<^item> queries beyond the chain give \<open>BlockNotFound\<close>;
    \<^item> fees are accounted per height.
  \<^descr>[\<open>Backend\<close>] the simulated backend: a working ledger, the chain and the pending
    batch. Construction commits genesis as block 0, which is why main reads its first
    transfer at block 1. The backends reachable by sends and commits form an inductive
    set. By rule induction, every reachable backend has a well-formed chain, and every
    block height conserves the genesis supply net of the fees charged.
  \<^descr>[\<open>Program\<close>] \<open>main.go\<close> itself:
    \<^item> the idealised EIP-155 signer, and the constants (lines 106, 111);
    \<^item> the initial balance parsed by a model of \<open>big.Int.SetString\<close> (line 55);
    \<^item> the decimal printing of \<open>%v\<close>, \<open>getGasLimit\<close>/\<open>getAmount\<close>, \<open>printTrxInfo\<close>,
      \<open>extractBalance\<close> and \<open>printBalance\<close>;
    \<^item> a record \<open>main_state\<close> of main's locals;
    \<^item> one function per phase: \<open>main_setup\<close> (33-78), \<open>transaction1\<close> (80-146),
      \<open>transaction2\<close> (148-217);
    \<^item> \<open>main_run\<close>, composing the phases with the deferred \<open>recover\<close> (24-31).

    Each phase returns \<open>Inl (stop, output)\<close> for an early return or a panic, and
    \<open>Inr state\<close> otherwise. Output is the list of strings written. The lemmas compute
    each phase on the fresh backends main builds, give the conditions under which each
    transfer is applied, and run the same two signed transactions on one persistent
    ledger for comparison.
  \<^descr>[\<open>Spec2Isabelle\<close>] this theory: the properties of the program (C1-C15).

  \<^bold>\<open>Inputs and integers.\<close> An input is what \<open>fmt.Scanln\<close> stored:
  \<^item> \<open>Some w\<close> for a parsed \<open>int64\<close>;
  \<^item> \<open>None\<close> when scanning failed and the variable kept its zero value.

  \<open>big.NewInt(a)\<close> is \<open>sint a\<close>, and \<open>uint64(limit)\<close> keeps the bits, so a negative gas
  limit reads as \<open>unat\<close> of the same word (at least 2^63). The fee and the charge are
  unbounded integers, as \<open>big.Int\<close> is, and the validator's overflow check bounds them by
  \<open>2^256 - 1\<close>. No loop of the program is unbounded, so no fuel is needed. The only
  recursions are \<open>submit_all\<close> (structural on the list) and the decimal printer
  (on \<open>n div 10\<close>).

  \<^bold>\<open>What the properties show.\<close>
  \<^item> C1-C5: main's two transfers are applied under exactly the stated input conditions,
    with the stated balances. Supply is conserved net of the fees. The program's
    two-network run refines the spec's single persistent ledger.
  \<^item> C6: the restart breaks replay protection.
  \<^item> C7, C13, C14: the error paths and their messages. An error the backend returns
    is printed as the name of its spec reason (\<open>error_text\<close>).
  \<^item> C8: main never panics.
  \<^item> C9-C11: history queries, conservation at every height of every reachable backend
    from main's genesis, and replay rejection within one network.
  \<^item> C12: the lines the first transfer prints, with the printed cost against the
    amount charged.
  \<^item> C15: the complete output of a finished run.

  \<^bold>\<open>Not modelled.\<close>
  \<^item> Key generation: the two addresses are parameters, and a private key is identified
    with its address.
  \<^item> The EIP-55 address formatter: a parameter \<open>hex\<close>.
  \<^item> \<open>log.Fatal\<close> branches, which cannot fire on the simulated backend.
  \<^item> \<open>Close\<close>, which never fails there.
  \<^item> The block gas limit of line 77, passed to \<open>NewSimulatedBackend\<close> at lines 78
    and 173: the spec's validator has no such check, so no gas limit is bounded by it.
  \<^item> The library backend's own way of failing: go-ethereum's simulated backend may
    report some rejections by panicking rather than returning an error; the model
    follows the spec's core, which returns every rejection as a value (spec section 7).
  \<^item> Negative amounts are kept as \<open>big.NewInt\<close> gives them (an \<open>int\<close>); the spec
    types values as unsigned and names no rejection for them, so no claim rests on
    their effect.
  \<^item> Concurrency (spec section 5): the program is single-threaded.
\<close>

section \<open>The first transfer of main\<close>

text \<open>
  C1. The program's first transfer (A to B on the genesis network) is applied exactly when
  the gas limit read is at least the transfer gas 21000 and the amount plus the gas limit
  is covered by A's initial 10,000,000 wei; otherwise \<open>main\<close> takes the early-return
  branch of line 120.
\<close>

theorem transaction1_accepted_iff:
  "(\<exists>st. transaction1 hex inA inL (main_setup hex A B) = Inr st) \<longleftrightarrow>
     MINIMUM_TRANSFER_GAS \<le> unat (snd (getGasLimit inL)) \<and>
     sint (snd (getAmount inA)) + int (unat (snd (getGasLimit inL))) \<le> initial_balance"
  by (simp only: transaction1_setup_Inr_iff trx1_Applied_iff)

text \<open>
  C2. When the first transfer is applied between two distinct clients, A pays the amount
  plus the 21000 gas used at price 1, B receives the amount, A's nonce becomes 1 and B's
  stays 0, and these are the balances main reads at block 1.
\<close>

theorem transaction1_balances:
  assumes "A \<noteq> B"
    and "MINIMUM_TRANSFER_GAS \<le> unat (snd (getGasLimit inL))"
    and "sint (snd (getAmount inA)) + int (unat (snd (getGasLimit inL))) \<le> initial_balance"
  shows "\<exists>st. transaction1 hex inA inL (main_setup hex A B) = Inr st \<and>
     balance1A st = initial_balance - sint (snd (getAmount inA)) - int MINIMUM_TRANSFER_GAS \<and>
     balance1B st = initial_balance + sint (snd (getAmount inA)) \<and>
     pendingNonceAt (backend st) A = 1 \<and> pendingNonceAt (backend st) B = 0"
proof -
  let ?g = "genesisChain A B" and ?stx = "signedATx (main_setup hex A B) inA inL"
  from assms(2,3) have app: "status (fst (submit recover (genesis_ledger ?g) ?stx)) = Applied"
    by (simp only: trx1_Applied_iff)
  then obtain b1 where send: "sendTransaction recover (newSimulatedBackend ?g) ?stx = Inr b1"
    using sendTransaction_Inr_ex by fastforce
  have l1: "ledger b1 = snd (submit recover (genesis_ledger ?g) ?stx)"
    by (rule send_fresh(1) [OF send])
  have bal: "getBalance (ledger b1) x =
      getBalance (genesis_ledger ?g) x
      - (if x = A then sint (snd (getAmount inA)) + int MINIMUM_TRANSFER_GAS else 0)
      + (if x = B then sint (snd (getAmount inA)) else 0)" for x
    using program_transfer_balance [OF app [unfolded signedATx_def]] l1
    by (simp add: signedATx_def del: getAmount_simps)
  have non: "getNonce (ledger b1) x = (if x = A then 1 else 0)" for x
    using l1 submit_nonce [of recover "genesis_ledger ?g" ?stx x] app
    by (simp add: signedATx_def)
  show ?thesis
    using assms(1) send bal non
    by (simp add: transaction1_fresh [where g = ?g] genesisChain_def pendingNonceAt_def
        del: getAmount_simps)
qed

theorem transaction1_balances_witness:
  "(1::address) \<noteq> 2 \<and>
   \<not> (\<exists>st. transaction1 (\<lambda>_. []) (Some 1000) (Some 20999) (main_setup (\<lambda>_. []) 1 2) = Inr st) \<and>
   (\<exists>st. transaction1 (\<lambda>_. []) (Some 1000) (Some 21000) (main_setup (\<lambda>_. []) 1 2) = Inr st \<and>
      balance1A st = 9978000 \<and> balance1B st = 10001000 \<and>
      pendingNonceAt (backend st) 1 = 1 \<and> pendingNonceAt (backend st) 2 = 0)"
proof -
  have "\<not> (\<exists>st. transaction1 (\<lambda>_. []) (Some 1000) (Some 20999) (main_setup (\<lambda>_. []) 1 2) = Inr st)"
    by (simp only: transaction1_setup_Inr_iff trx1_Applied_iff) (simp add: MINIMUM_TRANSFER_GAS_def)
  moreover have "\<exists>st. transaction1 (\<lambda>_. []) (Some 1000) (Some 21000) (main_setup (\<lambda>_. []) 1 2) = Inr st \<and>
      balance1A st = 9978000 \<and> balance1B st = 10001000 \<and>
      pendingNonceAt (backend st) 1 = 1 \<and> pendingNonceAt (backend st) 2 = 0"
    using transaction1_balances [of "1::address" 2 "Some 21000" "Some 1000" "\<lambda>_. []"]
    by (simp add: MINIMUM_TRANSFER_GAS_def initial_balance_eq)
  ultimately show ?thesis by simp
qed

section \<open>main end to end\<close>

text \<open>
  C3. With two distinct clients, main runs to its end (line 218) exactly when both
  transfers pass: the first as in C1, the second when its gas limit is at least 21000 and
  its amount plus gas limit is covered by B's balance after the first transfer.
\<close>

theorem main_finishes_iff:
  assumes "A \<noteq> B"
  shows "(\<exists>st. main_run hex A B i1 i2 i3 i4 = Finished st) \<longleftrightarrow>
    (MINIMUM_TRANSFER_GAS \<le> unat (snd (getGasLimit i2)) \<and>
     sint (snd (getAmount i1)) + int (unat (snd (getGasLimit i2))) \<le> initial_balance) \<and>
    (MINIMUM_TRANSFER_GAS \<le> unat (snd (getGasLimit i4)) \<and>
     sint (snd (getAmount i3)) + int (unat (snd (getGasLimit i4))) \<le>
       initial_balance + sint (snd (getAmount i1)))"
proof
  assume "\<exists>st. main_run hex A B i1 i2 i3 i4 = Finished st"
  then obtain st where "main_run hex A B i1 i2 i3 i4 = Finished st" by blast
  from main_final_ledger(1) [OF assms this] show "inputs_ok1 i1 i2 \<and> inputs_ok2 i1 i3 i4" .
next
  assume "inputs_ok1 i1 i2 \<and> inputs_ok2 i1 i3 i4"
  then show "\<exists>st. main_run hex A B i1 i2 i3 i4 = Finished st"
    using main_run_Finished [OF assms, where hex = hex] by blast
qed

theorem main_finishes_iff_witness:
  "(1::address) \<noteq> 2 \<and>
   (\<exists>st. main_run (\<lambda>_. []) 1 2 (Some 1000) (Some 21000) (Some 2000) (Some 21000) = Finished st) \<and>
   \<not> (\<exists>st. main_run (\<lambda>_. []) 1 2 (Some 1000) (Some 21000) (Some 10001000) (Some 21000) = Finished st)"
  using main_finishes_iff [of "1::address" 2 "\<lambda>_. []" "Some 1000" "Some 21000" "Some 2000" "Some 21000"]
    main_finishes_iff [of "1::address" 2 "\<lambda>_. []" "Some 1000" "Some 21000" "Some 10001000" "Some 21000"]
  by (simp add: MINIMUM_TRANSFER_GAS_def initial_balance_eq)

text \<open>
  C4. When main finishes, A holds \<open>10,000,000 - a1 - 21000 + a2\<close> and B holds
  \<open>10,000,000 + a1 - a2 - 21000\<close> in the final network, and the supply is the initial
  20,000,000 less the two fees: the fees leave circulation even across the restart of the
  network between the transfers (spec invariant 4).
\<close>

theorem main_final_balances:
  assumes "A \<noteq> B" and "main_run hex A B i1 i2 i3 i4 = Finished st"
  shows "getBalance (ledger (backend st)) A =
           initial_balance - sint (snd (getAmount i1)) - int MINIMUM_TRANSFER_GAS + sint (snd (getAmount i3)) \<and>
         getBalance (ledger (backend st)) B =
           initial_balance + sint (snd (getAmount i1)) - sint (snd (getAmount i3)) - int MINIMUM_TRANSFER_GAS \<and>
         total_supply (ledger (backend st)) = 2 * initial_balance - 2 * int MINIMUM_TRANSFER_GAS"
  using main_final_ledger(2) [OF assms, of A] main_final_ledger(2) [OF assms, of B]
    main_final_ledger(4-6) [OF assms] assms(1)
  by simp

theorem main_final_balances_witness:
  "\<exists>st. main_run (\<lambda>_. []) 1 2 (Some 1000) (Some 21000) (Some 2000) (Some 21000) = Finished st \<and>
     getBalance (ledger (backend st)) 1 = 9980000 \<and> getBalance (ledger (backend st)) 2 = 9978000 \<and>
     total_supply (ledger (backend st)) = 19958000"
proof -
  have ne: "(1::address) \<noteq> 2" by simp
  have ok: "inputs_ok1 (Some 1000) (Some 21000)" "inputs_ok2 (Some 1000) (Some 2000) (Some 21000)"
    by (simp_all add: MINIMUM_TRANSFER_GAS_def initial_balance_eq)
  obtain st where f: "main_run (\<lambda>_. []) 1 2 (Some 1000) (Some 21000) (Some 2000) (Some 21000) = Finished st"
    using main_run_Finished [OF ne ok, where hex = "\<lambda>_. []"] by blast
  from main_final_balances [OF ne f] f show ?thesis
    by (auto simp: MINIMUM_TRANSFER_GAS_def initial_balance_eq)
qed

text \<open>
  C5. Refinement of the spec's design note (section 9): the program's two networks, the
  second built from the balances read at block 1, end with the same balance for every
  address as the spec's single persistent ledger receiving both signed transactions.
\<close>

theorem main_refines_persistent_ledger:
  assumes "A \<noteq> B" and "main_run hex A B i1 i2 i3 i4 = Finished st"
  shows "getBalance (ledger (backend st)) x =
         getBalance (snd (submit_all recover (genesis_ledger (genesisChain A B))
           [signedATx (main_setup hex A B) i1 i2, signedBTx (main_setup hex A B) i3 i4])) x"
proof -
  from main_final_ledger(1) [OF assms] have "inputs_ok1 i1 i2" "inputs_ok2 i1 i3 i4" by simp_all
  from persistent_run(1) [OF assms(1) this, of hex x] main_final_ledger(2) [OF assms, of x]
  show ?thesis by simp
qed

theorem main_refines_persistent_ledger_witness:
  "\<exists>st. main_run (\<lambda>_. []) 1 2 (Some 1000) (Some 21000) (Some 2000) (Some 21000) = Finished st \<and>
     (\<forall>x. getBalance (ledger (backend st)) x =
        getBalance (snd (submit_all recover (genesis_ledger (genesisChain 1 2))
          [signedATx (main_setup (\<lambda>_. []) 1 2) (Some 1000) (Some 21000),
           signedBTx (main_setup (\<lambda>_. []) 1 2) (Some 2000) (Some 21000)])) x)"
proof -
  have ne: "(1::address) \<noteq> 2" by simp
  have ok: "inputs_ok1 (Some 1000) (Some 21000)" "inputs_ok2 (Some 1000) (Some 2000) (Some 21000)"
    by (simp_all add: MINIMUM_TRANSFER_GAS_def initial_balance_eq)
  obtain st where f: "main_run (\<lambda>_. []) 1 2 (Some 1000) (Some 21000) (Some 2000) (Some 21000) = Finished st"
    using main_run_Finished [OF ne ok, where hex = "\<lambda>_. []"] by blast
  from main_refines_persistent_ledger [OF ne f] f show ?thesis by blast
qed

text \<open>
  C6. The restart forgets nonces. In the program's final network A's expected nonce is 0
  again, so A's first signed transaction, already applied in the first network, is
  applied again whenever A can pay its charge; the spec's persistent ledger rejects the
  same replay with \<open>NonceMismatch\<close> (spec section 8, nonce monotonicity).
\<close>

theorem restart_replay_accepted:
  assumes "A \<noteq> B" and "main_run hex A B i1 i2 i3 i4 = Finished st"
  shows "(status (fst (submit recover (ledger (backend st)) (signedATx (main_setup hex A B) i1 i2))) = Applied
            \<longleftrightarrow> tx_charge (trx1AtoB (main_setup hex A B) i1 i2) \<le> getBalance (ledger (backend st)) A) \<and>
         status (fst (submit recover
            (snd (submit_all recover (genesis_ledger (genesisChain A B))
              [signedATx (main_setup hex A B) i1 i2, signedBTx (main_setup hex A B) i3 i4]))
            (signedATx (main_setup hex A B) i1 i2))) = Rejected NonceMismatch"
proof -
  from main_final_ledger(1) [OF assms] have ok: "inputs_ok1 i1 i2" "inputs_ok2 i1 i3 i4" by simp_all
  let ?t = "trx1AtoB (main_setup hex A B) i1 i2"
  have "status (fst (submit recover (ledger (backend st)) (signTx chainID A ?t))) = Applied \<longleftrightarrow>
        MINIMUM_TRANSFER_GAS \<le> unat (snd (getGasLimit i2)) \<and>
        sint (snd (getAmount i1)) + int (unat (snd (getGasLimit i2))) \<le> getBalance (ledger (backend st)) A"
    using main_final_small [OF assms] assms(1) main_final_ledger(3) [OF assms, of A]
    by (intro program_transfer_Applied_iff) (simp_all add: del: getAmount_simps getGasLimit_simps)
  then have replay: "status (fst (submit recover (ledger (backend st)) (signedATx (main_setup hex A B) i1 i2))) = Applied
        \<longleftrightarrow> tx_charge ?t \<le> getBalance (ledger (backend st)) A"
    using ok(1) by (simp add: signedATx_def signed_charge del: getAmount_simps getGasLimit_simps)
  define lp where "lp = snd (submit_all recover (genesis_ledger (genesisChain A B))
              [signedATx (main_setup hex A B) i1 i2, signedBTx (main_setup hex A B) i3 i4])"
  have "0 < getNonce lp A"
    unfolding lp_def using persistent_run(2) [OF assms(1) ok, of hex A] by simp
  from signedATx_stale_rejected [OF conjunct1 [OF ok(1)] this]
  have "status (fst (submit recover lp (signedATx (main_setup hex A B) i1 i2))) = Rejected NonceMismatch"
    by simp
  then have "status (fst (submit recover (snd (submit_all recover (genesis_ledger (genesisChain A B))
              [signedATx (main_setup hex A B) i1 i2, signedBTx (main_setup hex A B) i3 i4]))
            (signedATx (main_setup hex A B) i1 i2))) = Rejected NonceMismatch"
    by (simp only: lp_def)
  with replay show ?thesis by simp
qed

theorem restart_replay_accepted_witness:
  "\<exists>st. main_run (\<lambda>_. []) 1 2 (Some 1000) (Some 21000) (Some 2000) (Some 21000) = Finished st \<and>
     status (fst (submit recover (ledger (backend st))
       (signedATx (main_setup (\<lambda>_. []) 1 2) (Some 1000) (Some 21000)))) = Applied \<and>
     status (fst (submit recover
       (snd (submit_all recover (genesis_ledger (genesisChain 1 2))
          [signedATx (main_setup (\<lambda>_. []) 1 2) (Some 1000) (Some 21000),
           signedBTx (main_setup (\<lambda>_. []) 1 2) (Some 2000) (Some 21000)]))
       (signedATx (main_setup (\<lambda>_. []) 1 2) (Some 1000) (Some 21000)))) = Rejected NonceMismatch"
proof -
  have ne: "(1::address) \<noteq> 2" by simp
  have ok: "inputs_ok1 (Some 1000) (Some 21000)" "inputs_ok2 (Some 1000) (Some 2000) (Some 21000)"
    by (simp_all add: MINIMUM_TRANSFER_GAS_def initial_balance_eq)
  obtain st where f: "main_run (\<lambda>_. []) 1 2 (Some 1000) (Some 21000) (Some 2000) (Some 21000) = Finished st"
    using main_run_Finished [OF ne ok, where hex = "\<lambda>_. []"] by blast
  have bal: "getBalance (ledger (backend st)) 1 = 9980000"
    using main_final_ledger(2) [OF ne f, of 1] by (simp add: MINIMUM_TRANSFER_GAS_def initial_balance_eq)
  from restart_replay_accepted [OF ne f] f bal show ?thesis
    by (auto simp: tx_charge_def gasPrice_def)
qed

section \<open>Errors and panics of main\<close>

text \<open>
  C7. Whatever the reason the first send is rejected, main prints the same message, "ERROR
  Gas insuficiente", and returns: with enough gas but an amount A cannot cover, the
  validator's reason is \<open>InsufficientFunds\<close> and the message still blames the gas.
\<close>

theorem transaction1_rejection_message:
  "transaction1 hex inA inL (main_setup hex A B) = Inl (s, os) \<Longrightarrow>
     s = Returned \<and> os = out (main_setup hex A B) @ prompts @ [''ERROR Gas insuficiente'' @ NL]"
  by (simp add: transaction1_fresh [where g = "genesisChain A B"] split: sum.splits)

theorem transaction1_rejection_message_witness:
  "transaction1 (\<lambda>_. []) (Some 10000000) (Some 21000) (main_setup (\<lambda>_. []) 1 2) =
     Inl (Returned, out (main_setup (\<lambda>_. []) 1 2) @ prompts @ [''ERROR Gas insuficiente'' @ NL]) \<and>
   validate recover (genesis_ledger (genesisChain 1 2))
     (signedATx (main_setup (\<lambda>_. []) 1 2) (Some 10000000) (Some 21000)) = Inl InsufficientFunds"
proof -
  have v: "validate recover (genesis_ledger (genesisChain 1 2))
     (signedATx (main_setup (\<lambda>_. []) 1 2) (Some 10000000) (Some 21000)) = Inl InsufficientFunds"
    by (simp add: signedATx_def validate_def tx_charge_def gasPrice_def genesisChain_def
        initial_balance_eq MINIMUM_TRANSFER_GAS_def MAX_UINT256_def)
  have "\<not> (\<exists>st. transaction1 (\<lambda>_. []) (Some 10000000) (Some 21000) (main_setup (\<lambda>_. []) 1 2) = Inr st)"
    by (simp only: transaction1_setup_Inr_iff trx1_Applied_iff) (simp add: initial_balance_eq)
  then obtain s os where "transaction1 (\<lambda>_. []) (Some 10000000) (Some 21000) (main_setup (\<lambda>_. []) 1 2) = Inl (s, os)"
    by (cases "transaction1 (\<lambda>_. []) (Some 10000000) (Some 21000) (main_setup (\<lambda>_. []) 1 2)") auto
  with transaction1_rejection_message [OF this] v show ?thesis by simp
qed

text \<open>
  C8. main never panics: for every pair of clients and every input, main either runs to its
  end or returns early after a rejected send; the deferred \<open>recover\<close> (lines 24-31) never
  sees a panic, since the balances are always read at block 1, which the commit creates,
  and the committed block always holds the transaction just sent.
\<close>

theorem main_never_panics:
  "case main_run hex A B i1 i2 i3 i4 of Finished st \<Rightarrow> True | Stopped s os \<Rightarrow> s = Returned"
  by (auto simp: main_run_def main_recover_def dest: transaction1_setup_Inl transaction2_Inl_Returned
      split: sum.splits main_outcome.splits)

section \<open>The first network after transaction 1\<close>

text \<open>
  C9. After the first transfer the backend holds two blocks: block 0 is the genesis
  snapshot and block 1 the ledger after the transfer, holding exactly the signed
  transaction and its receipt; block 1 is the current block (so \<open>Transactions()[0]\<close> at
  line 133 exists) and every query above height 1 is \<open>BlockNotFound\<close>.
\<close>

theorem transaction1_history:
  assumes "transaction1 hex inA inL (main_setup hex A B) = Inr st"
  shows "backend_balanceAt (backend st) x 0 = Inr (getBalance (genesis_ledger (genesisChain A B)) x) \<and>
         backend_balanceAt (backend st) x 1 = Inr (getBalance (ledger (backend st)) x) \<and>
         backend_balanceAt (backend st) x (Suc (Suc i)) = Inl BlockNotFound \<and>
         currentIndex (chain (backend st)) = Some 1 \<and>
         transactions (chain (backend st) ! 1) =
           [(signedATx (main_setup hex A B) inA inL,
             fst (submit recover (genesis_ledger (genesisChain A B)) (signedATx (main_setup hex A B) inA inL)))]"
  using transaction1_Inr_run(3) [OF assms]
  by (simp add: backend_balanceAt_def balanceAt_def currentIndex_def)

theorem transaction1_history_witness:
  "\<exists>st. transaction1 (\<lambda>_. []) (Some 1000) (Some 21000) (main_setup (\<lambda>_. []) 1 2) = Inr st \<and>
     backend_balanceAt (backend st) 1 0 = Inr 10000000 \<and>
     backend_balanceAt (backend st) 1 1 = Inr 9978000 \<and>
     backend_balanceAt (backend st) 1 5 = Inl BlockNotFound"
proof -
  have "\<exists>st. transaction1 (\<lambda>_. []) (Some 1000) (Some 21000) (main_setup (\<lambda>_. []) 1 2) = Inr st"
    by (simp only: transaction1_setup_Inr_iff trx1_Applied_iff)
       (simp add: MINIMUM_TRANSFER_GAS_def initial_balance_eq)
  then obtain st where t: "transaction1 (\<lambda>_. []) (Some 1000) (Some 21000) (main_setup (\<lambda>_. []) 1 2) = Inr st"
    by blast
  have ne: "(1::address) \<noteq> 2" by simp
  have l: "getBalance (ledger (backend st)) 1 = 9978000"
    using transaction1_Inr_run(2) [OF t] trx1_ledger(1) [OF ne transaction1_Inr_run(1) [OF t], of 1]
    by (simp add: MINIMUM_TRANSFER_GAS_def initial_balance_eq)
  from t l transaction1_history [OF t, of 1 0] transaction1_history [OF t, of 1 3] show ?thesis
    by (simp add: genesisChain_balance initial_balance_eq del: getBalance_genesis)
qed

text \<open>
  C10. Conservation in the program's network (spec invariant 4): in every backend reachable
  from main's genesis by sends and commits, and at every block height, the supply in the
  block's snapshot plus the fees charged up to that block is the genesis supply of
  20,000,000 wei.
\<close>

theorem main_network_conservation:
  assumes "A \<noteq> B" and "reachable recover (genesisChain A B) b" and "i < length (chain b)"
  shows "total_supply (ledgerDigest (chain b ! i)) + fees_upto (chain b) i = 2 * initial_balance"
  using reachable_backend_inv [OF assms(2)] assms(3) genesisChain_supply [OF assms(1)]
  by (simp add: backend_inv_def)

theorem main_network_conservation_witness:
  "\<exists>st. transaction1 (\<lambda>_. []) (Some 1000) (Some 21000) (main_setup (\<lambda>_. []) 1 2) = Inr st \<and>
     reachable recover (genesisChain 1 2) (backend st) \<and>
     total_supply (ledgerDigest (chain (backend st) ! 1)) + fees_upto (chain (backend st)) 1 = 20000000"
proof -
  have "\<exists>st. transaction1 (\<lambda>_. []) (Some 1000) (Some 21000) (main_setup (\<lambda>_. []) 1 2) = Inr st"
    by (simp only: transaction1_setup_Inr_iff trx1_Applied_iff)
       (simp add: MINIMUM_TRANSFER_GAS_def initial_balance_eq)
  then obtain st where t: "transaction1 (\<lambda>_. []) (Some 1000) (Some 21000) (main_setup (\<lambda>_. []) 1 2) = Inr st"
    by blast
  have ne: "(1::address) \<noteq> 2" by simp
  have "1 < length (chain (backend st))" using transaction1_Inr_run(3) [OF t] by simp
  from main_network_conservation [OF ne transaction1_Inr_run(10) [OF t] this] t
    transaction1_Inr_run(10) [OF t]
  show ?thesis by (auto simp: initial_balance_eq)
qed

text \<open>
  C11. Replay protection inside one network (spec scenario D): once the first transfer is
  committed, sending the same signed transaction again to the same backend is rejected
  with \<open>NonceMismatch\<close>, since A's expected nonce has moved to 1.
\<close>

theorem transaction1_resend_rejected:
  assumes "A \<noteq> B" and "transaction1 hex inA inL (main_setup hex A B) = Inr st"
  shows "sendTransaction recover (backend st) (signedATx (main_setup hex A B) inA inL) = Inl NonceMismatch"
proof -
  note app = transaction1_Inr_run(1) [OF assms(2)]
  have "0 < getNonce (ledger (backend st)) A"
    using transaction1_Inr_run(2) [OF assms(2)] trx1_ledger(2) [OF assms(1) app, of A] by simp
  moreover have "MINIMUM_TRANSFER_GAS \<le> unat (snd (getGasLimit inL))"
    using app by (simp only: trx1_Applied_iff)
  ultimately show ?thesis
    by (simp add: sendTransaction_Inl_iff signedATx_stale_rejected)
qed

theorem transaction1_resend_rejected_witness:
  "\<exists>st. transaction1 (\<lambda>_. []) (Some 1000) (Some 21000) (main_setup (\<lambda>_. []) 1 2) = Inr st \<and>
     sendTransaction recover (backend st) (signedATx (main_setup (\<lambda>_. []) 1 2) (Some 1000) (Some 21000))
       = Inl NonceMismatch"
proof -
  have "\<exists>st. transaction1 (\<lambda>_. []) (Some 1000) (Some 21000) (main_setup (\<lambda>_. []) 1 2) = Inr st"
    by (simp only: transaction1_setup_Inr_iff trx1_Applied_iff)
       (simp add: MINIMUM_TRANSFER_GAS_def initial_balance_eq)
  then obtain st where t: "transaction1 (\<lambda>_. []) (Some 1000) (Some 21000) (main_setup (\<lambda>_. []) 1 2) = Inr st"
    by blast
  have ne: "(1::address) \<noteq> 2" by simp
  from transaction1_resend_rejected [OF ne t] t show ?thesis by blast
qed

section \<open>What the first transfer prints, and stops on bad input\<close>

text \<open>
  C12. The lines the first transfer prints (lines 134-146). The "Cost" line shows geth's
  \<open>Cost()\<close>, the amount plus the whole gas limit times the price, while A's balance
  printed just below has dropped by the amount plus the 21000 gas used: the two differ
  whenever the gas limit exceeds 21000.
\<close>

theorem transaction1_output:
  assumes "A \<noteq> B" and "transaction1 hex (Some a) (Some lim) (main_setup hex A B) = Inr st"
  shows "out st = out (main_setup hex A B) @ prompts @
      [''A - - - '' @ int_dec (sint a) @ '' - - - > B'' @ NL @ NL,
       ''Amount: '' @ int_dec (sint a) @ NL,
       ''GasPrice: '' @ int_dec gasPrice @ NL,
       ''Gas: '' @ nat_dec (unat lim) @ NL,
       ''Cost: '' @ int_dec (sint a) @ '' + ('' @ nat_dec (unat lim) @ '' * '' @ int_dec gasPrice @
         '') = '' @ int_dec (sint a + int (unat lim)) @ NL,
       ''To (public key): '' @ hex B @ NL,
       NL,
       printBalance ''A'' (initial_balance - sint a - int MINIMUM_TRANSFER_GAS),
       printBalance ''B'' (initial_balance + sint a),
       ''- - - - - - - - - - -'' @ NL,
       NL]"
proof -
  note app = transaction1_Inr_run(1) [OF assms(2)]
  have bal: "balance1A st = initial_balance - sint a - int MINIMUM_TRANSFER_GAS"
    "balance1B st = initial_balance + sint a"
    using transaction1_Inr_run(2,5,6) [OF assms(2)] trx1_ledger(1) [OF assms(1) app, of A]
      trx1_ledger(1) [OF assms(1) app, of B] assms(1)
    by simp_all
  show ?thesis
    using transaction1_Inr_run(7) [OF assms(2)]
    by (simp add: bal report1_def printTrxInfo_def tx_charge_def gasPrice_def)
qed

theorem transaction1_output_witness:
  "\<exists>st. transaction1 (\<lambda>_. []) (Some 1000) (Some 30000) (main_setup (\<lambda>_. []) 1 2) = Inr st \<and>
     drop 9 (out st) =
       [''A - - - '' @ int_dec 1000 @ '' - - - > B'' @ NL @ NL,
        ''Amount: '' @ int_dec 1000 @ NL,
        ''GasPrice: '' @ int_dec 1 @ NL,
        ''Gas: '' @ nat_dec 30000 @ NL,
        ''Cost: '' @ int_dec 1000 @ '' + ('' @ nat_dec 30000 @ '' * '' @ int_dec 1 @ '') = '' @
          int_dec 31000 @ NL,
        ''To (public key): '' @ NL,
        NL,
        printBalance ''A'' 9978000,
        printBalance ''B'' 10001000,
        ''- - - - - - - - - - -'' @ NL,
        NL]"
proof -
  have "\<exists>st. transaction1 (\<lambda>_. []) (Some 1000) (Some 30000) (main_setup (\<lambda>_. []) 1 2) = Inr st"
    by (simp only: transaction1_setup_Inr_iff trx1_Applied_iff)
       (simp add: MINIMUM_TRANSFER_GAS_def initial_balance_eq)
  then obtain st where t: "transaction1 (\<lambda>_. []) (Some 1000) (Some 30000) (main_setup (\<lambda>_. []) 1 2) = Inr st"
    by blast
  have ne: "(1::address) \<noteq> 2" by simp
  from transaction1_output [OF ne t] t show ?thesis
    by (simp add: main_setup_def gasPrice_def initial_balance_eq MINIMUM_TRANSFER_GAS_def)
qed

text \<open>
  C13. When \<open>Scanln\<close> cannot read the first gas limit, the variable keeps its zero value,
  the gas is too low, and main prints the gas message and returns, whatever the other
  inputs are.
\<close>

theorem scan_failure_returns:
  "main_run hex A B i1 None i3 i4 =
     Stopped Returned (out (main_setup hex A B) @ prompts @ [''ERROR Gas insuficiente'' @ NL])"
proof -
  have "status (fst (submit recover (genesis_ledger (genesisChain A B))
          (signedATx (main_setup hex A B) i1 None))) \<noteq> Applied"
    by (simp only: trx1_Applied_iff) (simp add: MINIMUM_TRANSFER_GAS_def)
  then show ?thesis by (simp add: main_run_def main_recover_def transaction1_Inl)
qed

text \<open>
  C14. When the second send is rejected, main prints the backend's own error and
  returns (lines 196-199), unlike the first send's fixed message (C7): a second amount B
  cannot cover is reported with its reason, \<open>InsufficientFunds\<close>.
\<close>

theorem transaction2_rejection_message:
  assumes "transaction2 hex inA inL st = Inl (s, os)"
  shows "s = Returned \<and>
    (\<exists>e. sendTransaction recover
           (newSimulatedBackend (genesisChain2 (pkA st) (pkB st) (balance1A st) (balance1B st)))
           (signedBTx st inA inL) = Inl e \<and>
         os = out st @ prompts @ [error_text e @ NL])"
  using assms by (auto simp: transaction2_run split: sum.splits)

theorem transaction2_rejection_message_witness:
  "\<exists>st os. transaction1 (\<lambda>_. []) (Some 1000) (Some 21000) (main_setup (\<lambda>_. []) 1 2) = Inr st \<and>
     transaction2 (\<lambda>_. []) (Some 20000000) (Some 21000) st = Inl (Returned, os) \<and>
     last os = ''InsufficientFunds'' @ NL"
proof -
  have "\<exists>st. transaction1 (\<lambda>_. []) (Some 1000) (Some 21000) (main_setup (\<lambda>_. []) 1 2) = Inr st"
    by (simp only: transaction1_setup_Inr_iff trx1_Applied_iff)
       (simp add: MINIMUM_TRANSFER_GAS_def initial_balance_eq)
  then obtain st where t: "transaction1 (\<lambda>_. []) (Some 1000) (Some 21000) (main_setup (\<lambda>_. []) 1 2) = Inr st"
    by blast
  have ne: "(1::address) \<noteq> 2" by simp
  note app = transaction1_Inr_run(1) [OF t]
  have st: "pkA st = 1" "pkB st = 2" "balance1A st = 9978000" "balance1B st = 10001000"
    "pendingNonceAt (backend st) 2 = 0"
    using transaction1_Inr_run(2,5,6,8,9) [OF t] trx1_ledger [OF ne app, of 1] trx1_ledger [OF ne app, of 2]
    by (simp_all add: pendingNonceAt_def initial_balance_eq MINIMUM_TRANSFER_GAS_def)
  let ?l = "genesis_ledger (genesisChain2 (pkA st) (pkB st) (balance1A st) (balance1B st))"
  have v: "validate recover ?l (signedBTx st (Some 20000000) (Some 21000)) = Inl InsufficientFunds"
    using st by (simp add: signedBTx_def validate_def tx_charge_def gasPrice_def genesisChain2_def
        MINIMUM_TRANSFER_GAS_def MAX_UINT256_def)
  then have r: "status (fst (submit recover ?l (signedBTx st (Some 20000000) (Some 21000)))) =
      Rejected InsufficientFunds"
    by (simp add: submit_def)
  then obtain e where "transaction2 (\<lambda>_. []) (Some 20000000) (Some 21000) st =
      Inl (Returned, out st @ prompts @ [error_text e @ NL])"
    using transaction2_Inl by fastforce
  moreover note m = transaction2_rejection_message [OF this]
  ultimately show ?thesis
    using t r by (auto simp: sendTransaction_Inl_iff error_text_def)
qed

text \<open>
  C15. Everything a finished run of main prints, in order:
  \<^item> the setup lines;
  \<^item> the two prompts and the first transfer's report with the balances at block 1;
  \<^item> the two prompts and the second transfer's details;
  \<^item> the final balances of A (\<open>10,000,000 - a1 - 21000 + a2\<close>) and B
    (\<open>10,000,000 + a1 - a2 - 21000\<close>);
  \<^item> the final Enter prompt.
\<close>

theorem main_output:
  assumes "A \<noteq> B" and "main_run hex A B i1 i2 i3 i4 = Finished st"
  shows "out st = out (main_setup hex A B) @ prompts @
     report1 hex (trx1AtoB (main_setup hex A B) i1 i2)
       (initial_balance - sint (snd (getAmount i1)) - int MINIMUM_TRANSFER_GAS)
       (initial_balance + sint (snd (getAmount i1))) @
     prompts @
     [''B - - - '' @ int_dec (sint (snd (getAmount i3))) @ '' - - - > A'' @ NL] @
     printTrxInfo hex (trx1BtoA (main_setup hex A B) i3 i4) @
     [printBalance ''A'' (initial_balance - sint (snd (getAmount i1)) - int MINIMUM_TRANSFER_GAS
                          + sint (snd (getAmount i3))),
      printBalance ''B'' (initial_balance + sint (snd (getAmount i1))
                          - sint (snd (getAmount i3)) - int MINIMUM_TRANSFER_GAS),
      PRESS_ENTER]"
proof -
  obtain st1 where t1: "transaction1 hex i1 i2 (main_setup hex A B) = Inr st1"
    and t2: "transaction2 hex i3 i4 st1 = Inr st"
    using assms(2) by (rule main_run_Finished_phases)
  have b1: "balance1A st1 = initial_balance - sint (snd (getAmount i1)) - int MINIMUM_TRANSFER_GAS"
    "balance1B st1 = initial_balance + sint (snd (getAmount i1))"
    using transaction1_Inr_run(2,5,6) [OF t1]
      trx1_ledger(1) [OF assms(1) transaction1_Inr_run(1) [OF t1], of A]
      trx1_ledger(1) [OF assms(1) transaction1_Inr_run(1) [OF t1], of B] assms(1)
    by simp_all
  show ?thesis
    using transaction2_Inr_run [OF t2] transaction1_Inr_run(7-9) [OF t1]
      trx1BtoA_after_transaction1 [OF assms(1) t1] b1
      main_final_ledger(2) [OF assms, of A] main_final_ledger(2) [OF assms, of B] assms(1)
    by simp
qed

theorem main_output_witness:
  "\<exists>st. main_run (\<lambda>_. []) 1 2 (Some 1000) (Some 21000) (Some 2000) (Some 21000) = Finished st \<and>
     take 3 (rev (out st)) = [PRESS_ENTER, printBalance ''B'' 9978000, printBalance ''A'' 9980000]"
proof -
  have ne: "(1::address) \<noteq> 2" by simp
  have ok: "inputs_ok1 (Some 1000) (Some 21000)" "inputs_ok2 (Some 1000) (Some 2000) (Some 21000)"
    by (simp_all add: MINIMUM_TRANSFER_GAS_def initial_balance_eq)
  obtain st where f: "main_run (\<lambda>_. []) 1 2 (Some 1000) (Some 21000) (Some 2000) (Some 21000) = Finished st"
    using main_run_Finished [OF ne ok, where hex = "\<lambda>_. []"] by blast
  from main_output [OF ne f] f show ?thesis
    by (simp add: initial_balance_eq MINIMUM_TRANSFER_GAS_def)
qed

end
